theory Spec2Isabelle
  imports Main "HOL-Library.Monad_Syntax"
begin

section \<open>Calendar event date resolution\<close>

text \<open>
  This theory embeds the date resolution code of the calendar event manager
  (\<^verbatim>\<open>calculateNthDate\<close>, \<^verbatim>\<open>calculateRelativeDate\<close> and
  \<^verbatim>\<open>calculateEventDate\<close> of \<^verbatim>\<open>server/routes.ts\<close>) together with the part of
  the ECMAScript \<^verbatim>\<open>Date\<close> object these functions use.

  Modelling conventions:
  \<^item> A JavaScript number that holds an integer is an \<^typ>\<open>int\<close>; fractions and
    infinities are outside the model. Where the code can produce \<^verbatim>\<open>NaN\<close>
    (\<^verbatim>\<open>parseInt\<close>, the getters of an invalid date) the type \<open>number\<close> is used.
  \<^item> A \<^verbatim>\<open>Date\<close> is its time value: milliseconds since the epoch in UTC, or Invalid Date. 
  \<^item> The local time zone is a fixed offset \<open>tza\<close> in milliseconds (local time is UTC plus
    \<open>tza\<close>); daylight saving transitions are outside the model.
  \<^item> \<^verbatim>\<open>new Date().getFullYear()\<close>, the year of the system clock, is the parameter
    \<open>currentYear\<close>.
  \<^item> Strings are lists of 8-bit characters.
  \<^item> A function that may fail to return has result type \<open>option\<close>, where \<open>None\<close> means that
    the call does not return.
\<close>

subsection \<open>Day numbers and time values (ECMAScript, section "Time Values and Time Range")\<close>

definition msPerDay :: int where
  "msPerDay = 86400000"

definition Day :: "int \<Rightarrow> int" where
  "Day t = t div msPerDay"

definition TimeWithinDay :: "int \<Rightarrow> int" where
  "TimeWithinDay t = t mod msPerDay"

definition DaysInYear :: "int \<Rightarrow> int" where
  "DaysInYear y = (if y mod 4 \<noteq> 0 then 365 else if y mod 100 \<noteq> 0 then 366
                   else if y mod 400 \<noteq> 0 then 365 else 366)"

definition DayFromYear :: "int \<Rightarrow> int" where
  "DayFromYear y = 365 * (y - 1970) + (y - 1969) div 4 - (y - 1901) div 100 + (y - 1601) div 400"

text \<open>
  ECMAScript specifies \<open>YearFromTime t\<close> as the largest \<open>y\<close> whose first day is not after
  \<open>t\<close>. The definition computes it from an estimate that is off by at most one year;
  lemmas \<open>YearFromDay_bounds\<close> and \<open>YearFromDay_unique\<close> show that it is that year.
\<close>

definition YearFromDay :: "int \<Rightarrow> int" where
  "YearFromDay d = (let y = 1970 + (400 * d) div 146097 in
     if d < DayFromYear y then y - 1 else if DayFromYear (y + 1) \<le> d then y + 1 else y)"

definition YearFromTime :: "int \<Rightarrow> int" where
  "YearFromTime t = YearFromDay (Day t)"

definition InLeapYear :: "int \<Rightarrow> int" where
  "InLeapYear t = (if DaysInYear (YearFromTime t) = 365 then 0 else 1)"

definition DayWithinYear :: "int \<Rightarrow> int" where
  "DayWithinYear t = Day t - DayFromYear (YearFromTime t)"

definition MonthFromTime :: "int \<Rightarrow> int" where
  "MonthFromTime t = (let d = DayWithinYear t; L = InLeapYear t in
     if d < 31 then 0 else if d < 59 + L then 1 else if d < 90 + L then 2
     else if d < 120 + L then 3 else if d < 151 + L then 4 else if d < 181 + L then 5
     else if d < 212 + L then 6 else if d < 243 + L then 7 else if d < 273 + L then 8
     else if d < 304 + L then 9 else if d < 334 + L then 10 else 11)"

definition DateFromTime :: "int \<Rightarrow> int" where
  "DateFromTime t = (let d = DayWithinYear t; L = InLeapYear t; m = MonthFromTime t in
     if m = 0 then d + 1 else if m = 1 then d - 30 else if m = 2 then d - 58 - L
     else if m = 3 then d - 89 - L else if m = 4 then d - 119 - L else if m = 5 then d - 150 - L
     else if m = 6 then d - 180 - L else if m = 7 then d - 211 - L else if m = 8 then d - 242 - L
     else if m = 9 then d - 272 - L else if m = 10 then d - 303 - L else d - 333 - L)"

definition WeekDay :: "int \<Rightarrow> int" where
  "WeekDay t = (Day t + 4) mod 7"

text \<open>
  \<open>MonthStart y mn\<close> is the day within year \<open>y\<close> on which month \<open>mn\<close> (0 to 11) begins, and
  \<open>DaysInMonth y mn\<close> the length of that month. \<open>MakeDay\<close> is ECMAScript's operation of the
  same name on finite arguments: the month may lie outside 0 to 11 and carries into the
  year, the date may lie outside the month and is counted on from its first day.
\<close>

definition MonthStart :: "int \<Rightarrow> int \<Rightarrow> int" where
  "MonthStart y mn = (let L = (if DaysInYear y = 365 then 0 else 1) in
     if mn = 0 then 0 else if mn = 1 then 31 else if mn = 2 then 59 + L
     else if mn = 3 then 90 + L else if mn = 4 then 120 + L else if mn = 5 then 151 + L
     else if mn = 6 then 181 + L else if mn = 7 then 212 + L else if mn = 8 then 243 + L
     else if mn = 9 then 273 + L else if mn = 10 then 304 + L else 334 + L)"

definition DaysInMonth :: "int \<Rightarrow> int \<Rightarrow> int" where
  "DaysInMonth y mn = (if mn = 1 then (if DaysInYear y = 365 then 28 else 29)
     else if mn = 3 \<or> mn = 5 \<or> mn = 8 \<or> mn = 10 then 30 else 31)"

definition MakeDay :: "int \<Rightarrow> int \<Rightarrow> int \<Rightarrow> int" where
  "MakeDay year month date = (let ym = year + month div 12; mn = month mod 12 in
     DayFromYear ym + MonthStart ym mn + date - 1)"

definition MakeDate :: "int \<Rightarrow> int \<Rightarrow> int" where
  "MakeDate day time = day * msPerDay + time"

definition LocalTime :: "int \<Rightarrow> int \<Rightarrow> int" where
  "LocalTime tza t = t + tza"

definition UTC :: "int \<Rightarrow> int \<Rightarrow> int" where
  "UTC tza t = t - tza"

subsection \<open>The Date object\<close>

datatype number = NaN | Num int

fun plus_number :: "number \<Rightarrow> int \<Rightarrow> number" where
  "plus_number NaN k = NaN"
| "plus_number (Num n) k = Num (n + k)"

datatype Date = Invalid_Date | Time_Value int

definition maxTime :: int where
  "maxTime = 8640000000000000"

definition TimeClip :: "int \<Rightarrow> Date" where
  "TimeClip t = (if \<bar>t\<bar> > maxTime then Invalid_Date else Time_Value t)"

text \<open>
  \<^verbatim>\<open>new Date(year, month, date)\<close>: the components are read in local time, and a year from
  0 to 99 stands for 1900 to 1999.
\<close>

definition full_year :: "int \<Rightarrow> int" where
  "full_year y = (if 0 \<le> y \<and> y \<le> 99 then 1900 + y else y)"

definition new_Date :: "int \<Rightarrow> number \<Rightarrow> number \<Rightarrow> number \<Rightarrow> Date" where
  "new_Date tza year month date =
     (case (year, month, date) of
        (Num y, Num m, Num dt) \<Rightarrow>
          TimeClip (UTC tza (MakeDate (MakeDay (full_year y) m dt) 0))
      | _ \<Rightarrow> Invalid_Date)"

fun getDay :: "int \<Rightarrow> Date \<Rightarrow> number" where
  "getDay tza Invalid_Date = NaN"
| "getDay tza (Time_Value t) = Num (WeekDay (LocalTime tza t))"

fun getDate :: "int \<Rightarrow> Date \<Rightarrow> number" where
  "getDate tza Invalid_Date = NaN"
| "getDate tza (Time_Value t) = Num (DateFromTime (LocalTime tza t))"

fun getMonth :: "int \<Rightarrow> Date \<Rightarrow> number" where
  "getMonth tza Invalid_Date = NaN"
| "getMonth tza (Time_Value t) = Num (MonthFromTime (LocalTime tza t))"

fun getFullYear :: "int \<Rightarrow> Date \<Rightarrow> number" where
  "getFullYear tza Invalid_Date = NaN"
| "getFullYear tza (Time_Value t) = Num (YearFromTime (LocalTime tza t))"

fun setDate :: "int \<Rightarrow> Date \<Rightarrow> number \<Rightarrow> Date" where
  "setDate tza Invalid_Date dt = Invalid_Date"
| "setDate tza (Time_Value t) NaN = Invalid_Date"
| "setDate tza (Time_Value t) (Num dt) =
     (let lt = LocalTime tza t
      in TimeClip (UTC tza (MakeDate (MakeDay (YearFromTime lt) (MonthFromTime lt) dt)
                                     (TimeWithinDay lt))))"

fun setMonth :: "int \<Rightarrow> Date \<Rightarrow> number \<Rightarrow> Date" where
  "setMonth tza Invalid_Date m = Invalid_Date"
| "setMonth tza (Time_Value t) NaN = Invalid_Date"
| "setMonth tza (Time_Value t) (Num m) =
     (let lt = LocalTime tza t
      in TimeClip (UTC tza (MakeDate (MakeDay (YearFromTime lt) m (DateFromTime lt))
                                     (TimeWithinDay lt))))"

text \<open>\<^verbatim>\<open>setFullYear\<close> on an invalid date starts from time value 0.\<close>

fun setFullYear :: "int \<Rightarrow> Date \<Rightarrow> number \<Rightarrow> Date" where
  "setFullYear tza d NaN = Invalid_Date"
| "setFullYear tza d (Num y) =
     (let lt = (case d of Invalid_Date \<Rightarrow> 0 | Time_Value t \<Rightarrow> LocalTime tza t)
      in TimeClip (UTC tza (MakeDate (MakeDay y (MonthFromTime lt) (DateFromTime lt))
                                     (TimeWithinDay lt))))"

subsection \<open>calculateNthDate\<close>

datatype error = NoOccurrenceInMonth int | InvalidUnit string

text \<open>
  The two \<^verbatim>\<open>while\<close> loops of \<^verbatim>\<open>calculateNthDate\<close>. Each runs until the weekday of
  the date equals \<open>dayOfWeek\<close>; for a \<open>dayOfWeek\<close> that no date has, it does not return.
\<close>

partial_function (option) nth_forward_loop :: "int \<Rightarrow> Date \<Rightarrow> int \<Rightarrow> Date option" where
  "nth_forward_loop tza date dayOfWeek =
     (if getDay tza date \<noteq> Num dayOfWeek
      then nth_forward_loop tza (setDate tza date (plus_number (getDate tza date) 1)) dayOfWeek
      else Some date)"

partial_function (option) nth_backward_loop :: "int \<Rightarrow> Date \<Rightarrow> int \<Rightarrow> Date option" where
  "nth_backward_loop tza lastDate dayOfWeek =
     (if getDay tza lastDate \<noteq> Num dayOfWeek
      then nth_backward_loop tza (setDate tza lastDate (plus_number (getDate tza lastDate) (- 1)))
             dayOfWeek
      else Some lastDate)"

declare nth_forward_loop.simps [code]
declare nth_backward_loop.simps [code]

text \<open>
  The \<^verbatim>\<open>throw\<close> of the source is the result \<open>Inl\<close>. Every caller passes the year, so the
  default value of that parameter is not modelled.
\<close>

definition calculateNthDate :: "int \<Rightarrow> int \<Rightarrow> int \<Rightarrow> int \<Rightarrow> int \<Rightarrow> (error + Date) option" where
  "calculateNthDate tza nthOccurrence dayOfWeek month year =
     (let firstDay = new_Date tza (Num year) (Num (month - 1)) (Num 1)
      in case nth_forward_loop tza firstDay dayOfWeek of
           None \<Rightarrow> None
         | Some date \<Rightarrow>
             if nthOccurrence = - 1 then
               (let lastDay = new_Date tza (Num year) (Num month) (Num 0)
                in case nth_backward_loop tza lastDay dayOfWeek of
                     None \<Rightarrow> None
                   | Some lastDate \<Rightarrow> Some (Inr lastDate))
             else
               (let date' = setDate tza date
                              (plus_number (getDate tza date) ((nthOccurrence - 1) * 7))
                in if getMonth tza date' \<noteq> Num (month - 1)
                   then Some (Inl (NoOccurrenceInMonth nthOccurrence))
                   else Some (Inr date')))"

subsection \<open>calculateRelativeDate\<close>

definition calculateRelativeDate ::
  "int \<Rightarrow> Date \<Rightarrow> int \<Rightarrow> string \<Rightarrow> string \<Rightarrow> error + Date" where
  "calculateRelativeDate tza baseDate period unit direction =
     (let result = baseDate;
          multiplier = (if direction = ''before'' then - 1 else 1)
      in if unit = ''days'' then
           Inr (setDate tza result (plus_number (getDate tza result) (period * multiplier)))
         else if unit = ''weeks'' then
           Inr (setDate tza result (plus_number (getDate tza result) (period * 7 * multiplier)))
         else if unit = ''months'' then
           Inr (setMonth tza result (plus_number (getMonth tza result) (period * multiplier)))
         else if unit = ''years'' then
           Inr (setFullYear tza result
                  (plus_number (getFullYear tza result) (period * multiplier)))
         else Inl (InvalidUnit unit))"

subsection \<open>Strings: split and parseInt\<close>

fun js_split :: "char \<Rightarrow> string \<Rightarrow> string list" where
  "js_split sep [] = [[]]"
| "js_split sep (c # cs) =
     (if c = sep then [] # js_split sep cs
      else (case js_split sep cs of [] \<Rightarrow> [[c]] | p # ps \<Rightarrow> (c # p) # ps))"

definition is_whitespace :: "char \<Rightarrow> bool" where
  "is_whitespace c = (c \<in> set [CHR 0x09, CHR 0x0A, CHR 0x0B, CHR 0x0C, CHR 0x0D, CHR '' ''])"

definition digit_value :: "char \<Rightarrow> int" where
  "digit_value c =
     (let n = int (of_char c) in
      if 48 \<le> n \<and> n \<le> 57 then n - 48
      else if 97 \<le> n \<and> n \<le> 122 then n - 87
      else if 65 \<le> n \<and> n \<le> 90 then n - 55
      else 36)"

text \<open>
  \<^verbatim>\<open>parseInt\<close> without a radix: leading white space, a sign, the prefix \<^verbatim>\<open>0x\<close>, then the
  longest run of digits; \<^verbatim>\<open>NaN\<close> if that run is empty.
\<close>

definition parseInt :: "string \<Rightarrow> number" where
  "parseInt inputString =
     (let S = dropWhile is_whitespace inputString;
          sign = (if take 1 S = ''-'' then - 1 else 1);
          S = (if take 1 S = ''+'' \<or> take 1 S = ''-'' then drop 1 S else S);
          R = (if take 2 S = ''0x'' \<or> take 2 S = ''0X'' then 16 else 10);
          S = (if R = 16 then drop 2 S else S);
          Z = takeWhile (\<lambda>c. digit_value c < R) S
      in if Z = [] then NaN
         else Num (sign * foldl (\<lambda>acc c. acc * R + digit_value c) 0 Z))"

text \<open>An element of a destructured array: a missing element is \<^verbatim>\<open>undefined\<close>, which
  \<^verbatim>\<open>parseInt\<close> turns into \<^verbatim>\<open>NaN\<close>.\<close>

fun parseInt_element :: "string list \<Rightarrow> nat \<Rightarrow> number" where
  "parseInt_element parts i = (if i < length parts then parseInt (parts ! i) else NaN)"

subsection \<open>Events and calculateEventDate\<close>

datatype date_value = DateString string | DateObject Date

fun parseSimpleDate :: "int \<Rightarrow> date_value \<Rightarrow> Date" where
  "parseSimpleDate tza (DateString dateValue) =
     (let parts = js_split CHR ''-''
                    (case js_split CHR ''T'' dateValue of [] \<Rightarrow> [] | p # ps \<Rightarrow> p);
          year = parseInt_element parts 0;
          month = parseInt_element parts 1;
          day = parseInt_element parts 2
      in new_Date tza year (plus_number month (- 1)) day)"
| "parseSimpleDate tza (DateObject d) = d"

text \<open>
  The fields of \<^verbatim>\<open>Event\<close> in \<^verbatim>\<open>shared/schema.ts\<close>; \<open>None\<close> is \<^verbatim>\<open>null\<close>. The field
  \<^verbatim>\<open>id\<close> is named \<open>id_event\<close>. The resolver takes \<^verbatim>\<open>event: any\<close>, so \<open>dateType\<close> and the
  unit and direction of a relative event are strings.
\<close>

record event =
  id_event :: string
  title :: string
  description :: "string option"
  dateType :: string
  startDate :: "date_value option"
  endDate :: "date_value option"
  nthOccurrence :: "int option"
  dayOfWeek :: "int option"
  month :: "int option"
  baseYear :: "int option"
  relativePeriod :: "int option"
  relativeUnit :: "string option"
  relativeDirection :: "string option"
  relativeEventName :: "string option"
  createdAt :: Date

text \<open>
  The result \<open>Some None\<close> is the \<^verbatim>\<open>null\<close> of the source, \<open>Some (Some d)\<close> a date, and \<open>None\<close>
  a call that does not return. A field is falsy when it is \<^verbatim>\<open>null\<close>, 0 or the empty
  string; a \<^verbatim>\<open>Date\<close> object is never falsy.
\<close>

partial_function (option) calculateEventDate ::
  "int \<Rightarrow> int \<Rightarrow> event \<Rightarrow> event list \<Rightarrow> Date option option" where
  "calculateEventDate tza currentYear event allEvents =
     (if dateType event = ''fixed'' then
        (case startDate event of
           None \<Rightarrow> Some None
         | Some dateValue \<Rightarrow>
             if dateValue = DateString [] then Some None
             else Some (Some (parseSimpleDate tza dateValue)))
      else if dateType event = ''nth'' then
        (case (nthOccurrence event, dayOfWeek event, month event) of
           (Some n, Some dow, Some mon) \<Rightarrow>
             if n = 0 \<or> mon = 0 then Some None
             else
               (let baseYear' = (case baseYear event of
                                   None \<Rightarrow> currentYear
                                 | Some y \<Rightarrow> if y = 0 then currentYear else y)
                in case calculateNthDate tza n dow mon baseYear' of
                     None \<Rightarrow> None
                   | Some (Inl err) \<Rightarrow> Some None
                   | Some (Inr d) \<Rightarrow> Some (Some d))
         | _ \<Rightarrow> Some None)
      else if dateType event = ''relative'' then
        (case (relativeEventName event, relativePeriod event, relativeUnit event,
               relativeDirection event) of
           (Some name, Some period, Some unit, Some direction) \<Rightarrow>
             if name = [] \<or> period = 0 \<or> unit = [] \<or> direction = [] then Some None
             else
               (case find (\<lambda>e. title e = name) allEvents of
                  None \<Rightarrow> Some None
                | Some referenceEvent \<Rightarrow>
                    do {
                      referenceDate \<leftarrow> calculateEventDate tza currentYear referenceEvent allEvents;
                      case referenceDate of
                        None \<Rightarrow> Some None
                      | Some refDate \<Rightarrow>
                          (case calculateRelativeDate tza refDate period unit direction of
                             Inl err \<Rightarrow> Some None
                           | Inr d \<Rightarrow> Some (Some d))
                    })
         | _ \<Rightarrow> Some None)
      else Some None)"

declare calculateEventDate.simps [code]

subsection \<open>Auxiliary notions for the statements\<close>

text \<open>The date whose local time is midnight at the start of day number \<open>d\<close>.\<close>

definition local_midnight :: "int \<Rightarrow> int \<Rightarrow> Date" where
  "local_midnight tza d = Time_Value (d * msPerDay - tza)"

text \<open>
  The date whose local civil date is day \<open>d\<close> of month \<open>mn\<close> of year \<open>y\<close> and whose local time
  of day is \<open>tod\<close> milliseconds, with the carries of \<open>MakeDay\<close> when \<open>mn\<close> or \<open>d\<close> is out of
  range.
\<close>

definition local_date :: "int \<Rightarrow> int \<Rightarrow> int \<Rightarrow> int \<Rightarrow> int \<Rightarrow> Date" where
  "local_date tza y mn d tod = TimeClip (UTC tza (MakeDate (MakeDay y mn d) tod))"

text \<open>
  \<open>reference_of event allEvents\<close> is the event whose date \<^verbatim>\<open>calculateEventDate\<close> resolves in
  its recursive call: the first event whose title is the \<^verbatim>\<open>relativeEventName\<close> of a relative
  event with all four relative fields present. \<open>chain_ends n event allEvents\<close> says that
  following these references from \<open>event\<close> ends after at most \<open>n\<close> steps.
\<close>

definition reference_of :: "event \<Rightarrow> event list \<Rightarrow> event option" where
  "reference_of event allEvents =
     (if dateType event = ''relative'' then
        (case (relativeEventName event, relativePeriod event, relativeUnit event,
               relativeDirection event) of
           (Some name, Some period, Some unit, Some direction) \<Rightarrow>
             if name = [] \<or> period = 0 \<or> unit = [] \<or> direction = [] then None
             else find (\<lambda>e. title e = name) allEvents
         | _ \<Rightarrow> None)
      else None)"

fun chain_ends :: "nat \<Rightarrow> event \<Rightarrow> event list \<Rightarrow> bool" where
  "chain_ends 0 event allEvents = (reference_of event allEvents = None)"
| "chain_ends (Suc n) event allEvents =
     (case reference_of event allEvents of
        None \<Rightarrow> True
      | Some referenceEvent \<Rightarrow> chain_ends n referenceEvent allEvents)"

text \<open>
  The ranges that make the loops of \<^verbatim>\<open>calculateNthDate\<close> end: a weekday from 0 to 6, a
  month from 1 to 12 and a year whose dates are in the range of \<^verbatim>\<open>Date\<close>. The schema
  \<^verbatim>\<open>insertEventSchema\<close> admits these weekdays and months and the years 2020 to 2050.
\<close>

definition nth_fields_in_range :: "event \<Rightarrow> bool" where
  "nth_fields_in_range event =
     ((case dayOfWeek event of None \<Rightarrow> True | Some d \<Rightarrow> 0 \<le> d \<and> d \<le> 6)
      \<and> (case month event of None \<Rightarrow> True | Some m \<Rightarrow> 0 \<le> m \<and> m \<le> 12)
      \<and> (case baseYear event of None \<Rightarrow> True | Some y \<Rightarrow> \<bar>y\<bar> \<le> 270000))"

text \<open>\<open>has_base_year event\<close>: the event does not fall back on the year of the clock.\<close>

definition has_base_year :: "event \<Rightarrow> bool" where
  "has_base_year event = (case baseYear event of None \<Rightarrow> False | Some y \<Rightarrow> y \<noteq> 0)"

subsection \<open>Example events\<close>

definition blank_event :: event where
  "blank_event = \<lparr> id_event = ''0'', title = ''untitled'', description = None,
     dateType = ''fixed'', startDate = None, endDate = None,
     nthOccurrence = None, dayOfWeek = None, month = None, baseYear = None,
     relativePeriod = None, relativeUnit = None, relativeDirection = None,
     relativeEventName = None, createdAt = Time_Value 0 \<rparr>"

definition relative_event :: "string \<Rightarrow> int \<Rightarrow> string \<Rightarrow> string \<Rightarrow> string \<Rightarrow> event" where
  "relative_event name period unit direction reference =
     blank_event \<lparr> title := name, dateType := ''relative'', relativePeriod := Some period,
       relativeUnit := Some unit, relativeDirection := Some direction,
       relativeEventName := Some reference \<rparr>"

definition nth_event :: "string \<Rightarrow> int option \<Rightarrow> int option \<Rightarrow> int option \<Rightarrow> int option \<Rightarrow> event" where
  "nth_event name n dow mon year =
     blank_event \<lparr> title := name, dateType := ''nth'', nthOccurrence := n, dayOfWeek := dow,
       month := mon, baseYear := year \<rparr>"

definition fixed_event :: "string \<Rightarrow> date_value option \<Rightarrow> event" where
  "fixed_event name start = blank_event \<lparr> title := name, startDate := start \<rparr>"

section \<open>Properties of the calendar functions\<close>

lemma div_succ:
  fixes a n :: int
  assumes n: "0 < n"
  shows "(a + 1) div n = a div n + (if (a + 1) mod n = 0 then 1 else 0)"
proof -
  have dm: "n * (a div n) + a mod n = a" by simp
  have r: "0 \<le> a mod n" "a mod n < n" using n by simp_all
  show ?thesis
  proof (cases "a mod n + 1 = n")
    case True
    have "n * (a div n + 1) = n * (a div n) + n" by (simp add: algebra_simps)
    then have eq: "a + 1 = n * (a div n + 1) + 0" using True dm by linarith
    have "(a + 1) div n = a div n + 1" by (rule int_div_pos_eq [OF eq]) (use n in simp_all)
    moreover have "(a + 1) mod n = 0" by (rule int_mod_pos_eq [OF eq]) (use n in simp_all)
    ultimately show ?thesis by simp
  next
    case False
    have lt: "a mod n + 1 < n" "0 \<le> a mod n + 1" using False r by linarith+
    have eq: "a + 1 = n * (a div n) + (a mod n + 1)" using dm by linarith
    have "(a + 1) div n = a div n" by (rule int_div_pos_eq [OF eq lt(2) lt(1)])
    moreover have "(a + 1) mod n = a mod n + 1" by (rule int_mod_pos_eq [OF eq lt(2) lt(1)])
    ultimately show ?thesis using r by simp
  qed
qed

lemma mod_shift: "((a::int) - n * k) mod n = a mod n"
  using mod_mult_self2 [of a n "- k"] by simp

lemma leap_mod_facts:
  fixes y :: int
  shows "y mod 100 = 0 \<Longrightarrow> y mod 4 = 0" and "y mod 400 = 0 \<Longrightarrow> y mod 100 = 0"
proof -
  have a: "(4::int) dvd 100" and b: "(100::int) dvd 400" by simp_all
  show "y mod 100 = 0 \<Longrightarrow> y mod 4 = 0"
    using dvd_trans [OF a, of y] by (simp add: mod_eq_0_iff_dvd)
  show "y mod 400 = 0 \<Longrightarrow> y mod 100 = 0"
    using dvd_trans [OF b, of y] by (simp add: mod_eq_0_iff_dvd)
qed

lemma DayFromYear_Suc: "DayFromYear (y + 1) = DayFromYear y + DaysInYear y"
proof -
  have "(y - 1969 + 1) mod 4 = (y - 4 * 492) mod 4" by (simp add: algebra_simps)
  then have a4: "(y - 1969 + 1) mod 4 = y mod 4" by (simp only: mod_shift)
  have "(y - 1901 + 1) mod 100 = (y - 100 * 19) mod 100" by (simp add: algebra_simps)
  then have a100: "(y - 1901 + 1) mod 100 = y mod 100" by (simp only: mod_shift)
  have "(y - 1601 + 1) mod 400 = (y - 400 * 4) mod 400" by (simp add: algebra_simps)
  then have a400: "(y - 1601 + 1) mod 400 = y mod 400" by (simp only: mod_shift)
  have a: "(y - 1969 + 1) div 4 = (y - 1969) div 4 + (if y mod 4 = 0 then 1 else 0)"
    using div_succ [of 4 "y - 1969"] a4 by simp
  have b: "(y - 1901 + 1) div 100 = (y - 1901) div 100 + (if y mod 100 = 0 then 1 else 0)"
    using div_succ [of 100 "y - 1901"] a100 by simp
  have c: "(y - 1601 + 1) div 400 = (y - 1601) div 400 + (if y mod 400 = 0 then 1 else 0)"
    using div_succ [of 400 "y - 1601"] a400 by simp
  have s: "y + 1 - 1969 = y - 1969 + 1" "y + 1 - 1901 = y - 1901 + 1" "y + 1 - 1601 = y - 1601 + 1"
    by simp_all
  show ?thesis
    unfolding DayFromYear_def DaysInYear_def s a b c
    using leap_mod_facts [of y] by auto
qed

lemma div_mod_lin:
  fixes a n :: int
  assumes "0 < n"
  shows "n * (a div n) \<le> a" and "a < n * (a div n) + n"
proof -
  have dm: "n * (a div n) + a mod n = a" by simp
  have r: "0 \<le> a mod n" "a mod n < n" using assms by simp_all
  show "n * (a div n) \<le> a" using dm r by linarith
  show "a < n * (a div n) + n" using dm r by linarith
qed

lemma DayFromYear_bounds:
  "146097 * y - 287811596 \<le> 400 * DayFromYear y"
  "400 * DayFromYear y \<le> 146097 * y - 287810501"
proof -
  have p: "(0::int) < 4" "(0::int) < 100" "(0::int) < 400" by simp_all
  note f = div_mod_lin [OF p(1), of "y - 1969"] div_mod_lin [OF p(2), of "y - 1901"]
    div_mod_lin [OF p(3), of "y - 1601"]
  show "146097 * y - 287811596 \<le> 400 * DayFromYear y"
    unfolding DayFromYear_def using f by (simp add: algebra_simps)
  show "400 * DayFromYear y \<le> 146097 * y - 287810501"
    unfolding DayFromYear_def using f by (simp add: algebra_simps)
qed

lemma DaysInYear_pos: "365 \<le> DaysInYear y" "DaysInYear y \<le> 366"
  by (simp_all add: DaysInYear_def)

lemma DayFromYear_mono: "y1 \<le> y2 \<Longrightarrow> DayFromYear y1 \<le> DayFromYear y2"
proof -
  assume "y1 \<le> y2"
  then obtain k :: nat where k: "y2 = y1 + int k"
    by (metis nat_le_iff_add zle_iff_zadd)
  have "DayFromYear y1 \<le> DayFromYear (y1 + int k)"
  proof (induction k)
    case 0
    show ?case by simp
  next
    case (Suc k)
    have "DayFromYear (y1 + int (Suc k)) = DayFromYear (y1 + int k) + DaysInYear (y1 + int k)"
      using DayFromYear_Suc [of "y1 + int k"] by (simp add: algebra_simps)
    with Suc DaysInYear_pos(1) [of "y1 + int k"] show ?case by linarith
  qed
  with k show ?thesis by simp
qed

lemma DayFromYear_strict: "y1 < y2 \<Longrightarrow> DayFromYear y1 < DayFromYear y2"
proof -
  assume "y1 < y2"
  then have "DayFromYear (y1 + 1) \<le> DayFromYear y2" by (intro DayFromYear_mono) simp
  then show ?thesis using DayFromYear_Suc [of y1] DaysInYear_pos(1) [of y1] by linarith
qed

lemma YearFromDay_bounds:
  "DayFromYear (YearFromDay d) \<le> d" "d < DayFromYear (YearFromDay d + 1)"
proof -
  define y where "y = 1970 + (400 * d) div 146097"
  have p: "(0::int) < 146097" by simp
  have "(400 * d) div 146097 = y - 1970" by (simp add: y_def)
  with div_mod_lin [OF p, of "400 * d"]
  have q: "146097 * y - 287811090 \<le> 400 * d" "400 * d < 146097 * y - 287664993"
    by (simp_all add: algebra_simps)
  have lo: "DayFromYear (y - 1) \<le> d"
    using DayFromYear_bounds(2) [of "y - 1"] q by (simp add: algebra_simps)
  have hi: "d < DayFromYear (y + 2)"
    using DayFromYear_bounds(1) [of "y + 2"] q by (simp add: algebra_simps)
  have yd: "YearFromDay d = (if d < DayFromYear y then y - 1
      else if DayFromYear (y + 1) \<le> d then y + 1 else y)"
    by (simp add: YearFromDay_def y_def Let_def)
  show "DayFromYear (YearFromDay d) \<le> d" using yd lo by auto
  show "d < DayFromYear (YearFromDay d + 1)" using yd hi by (auto simp: algebra_simps)
qed

lemma YearFromDay_unique:
  assumes "DayFromYear y \<le> d" and "d < DayFromYear (y + 1)"
  shows "YearFromDay d = y"
proof (rule ccontr)
  assume ne: "YearFromDay d \<noteq> y"
  show False
  proof (cases "YearFromDay d < y")
    case True
    then have "DayFromYear (YearFromDay d + 1) \<le> DayFromYear y" by (intro DayFromYear_mono) simp
    with YearFromDay_bounds(2) [of d] assms show False by linarith
  next
    case False
    with ne have "DayFromYear (y + 1) \<le> DayFromYear (YearFromDay d)" by (intro DayFromYear_mono) simp
    with YearFromDay_bounds(1) [of d] assms show False by linarith
  qed
qed

lemma month_cases:
  fixes mn :: int
  assumes "0 \<le> mn" "mn \<le> 11"
  shows "mn = 0 \<or> mn = 1 \<or> mn = 2 \<or> mn = 3 \<or> mn = 4 \<or> mn = 5 \<or> mn = 6
       \<or> mn = 7 \<or> mn = 8 \<or> mn = 9 \<or> mn = 10 \<or> mn = 11"
  using assms by arith

lemma DaysInYear_cases: "DaysInYear y = 365 \<or> DaysInYear y = 366"
  by (simp add: DaysInYear_def)

lemma MakeDay_in_year:
  assumes "0 \<le> mn" "mn \<le> 11"
  shows "MakeDay y mn dt = DayFromYear y + MonthStart y mn + dt - 1"
proof -
  have "mn div 12 = 0" "mn mod 12 = mn" using assms by simp_all
  then show ?thesis by (simp add: MakeDay_def Let_def)
qed

lemma MakeDay_add_date: "MakeDay y m (dt + k) = MakeDay y m dt + k"
  by (simp add: MakeDay_def Let_def)

lemma MakeDay_month_shift: "MakeDay y (m + 12 * j) dt = MakeDay (y + j) m dt"
proof -
  have "(m + 12 * j) div 12 = m div 12 + j" "(m + 12 * j) mod 12 = m mod 12" by simp_all
  then show ?thesis by (simp add: MakeDay_def Let_def algebra_simps)
qed

lemma MonthStart_range:
  assumes "0 \<le> mn" "mn \<le> 11" "1 \<le> dt" "dt \<le> DaysInMonth y mn"
  shows "0 \<le> MonthStart y mn + dt - 1" "MonthStart y mn + dt - 1 < DaysInYear y"
  using month_cases [OF assms(1,2)] assms(3,4) DaysInYear_cases [of y]
  by (auto simp: MonthStart_def DaysInMonth_def Let_def)

lemma MonthStart_next:
  assumes "0 \<le> mn" "mn \<le> 11"
  shows "MakeDay y (mn + 1) 1 = MakeDay y mn 1 + DaysInMonth y mn"
proof (cases "mn = 11")
  case True
  have "MakeDay y (0 + 12 * 1) 1 = MakeDay (y + 1) 0 1" by (rule MakeDay_month_shift)
  then have "MakeDay y 12 1 = DayFromYear (y + 1)"
    by (simp add: MakeDay_in_year MonthStart_def)
  moreover have "MakeDay y 11 1 + DaysInMonth y 11 = DayFromYear y + DaysInYear y"
    using DaysInYear_cases [of y] by (auto simp: MakeDay_in_year MonthStart_def DaysInMonth_def)
  ultimately show ?thesis using True DayFromYear_Suc [of y] by simp
next
  case False
  with assms have le: "0 \<le> mn + 1" "mn + 1 \<le> 11" "mn \<le> 10" by simp_all
  from month_cases [OF assms] False show ?thesis
    unfolding MakeDay_in_year [OF le(1,2)] MakeDay_in_year [OF assms]
    by (auto simp: MonthStart_def DaysInMonth_def Let_def)
qed

lemma Day_MakeDate:
  assumes "0 \<le> tm" "tm < msPerDay"
  shows "Day (MakeDate d tm) = d" and "TimeWithinDay (MakeDate d tm) = tm"
proof -
  have eq: "MakeDate d tm = msPerDay * d + tm" by (simp add: MakeDate_def)
  show "Day (MakeDate d tm) = d"
    unfolding Day_def by (rule int_div_pos_eq [OF eq assms])
  show "TimeWithinDay (MakeDate d tm) = tm"
    unfolding TimeWithinDay_def by (rule int_mod_pos_eq [OF eq assms])
qed

lemma MakeDate_Day: "MakeDate (Day t) (TimeWithinDay t) = t"
  by (simp add: MakeDate_def Day_def TimeWithinDay_def)

lemma TimeWithinDay_range: "0 \<le> TimeWithinDay t" "TimeWithinDay t < msPerDay"
  by (simp_all add: TimeWithinDay_def msPerDay_def)

lemma DayWithinYear_range: "0 \<le> DayWithinYear t" "DayWithinYear t < DaysInYear (YearFromTime t)"
  using YearFromDay_bounds [of "Day t"] DayFromYear_Suc [of "YearFromDay (Day t)"]
  by (simp_all add: DayWithinYear_def YearFromTime_def)

lemma MonthFromTime_range: "0 \<le> MonthFromTime t" "MonthFromTime t \<le> 11"
  by (simp_all add: MonthFromTime_def Let_def)

lemma MonthFromTime_eqI:
  assumes mn: "0 \<le> mn" "mn \<le> 11"
    and lo: "MonthStart (YearFromTime t) mn \<le> DayWithinYear t"
    and hi: "DayWithinYear t < MonthStart (YearFromTime t) mn + DaysInMonth (YearFromTime t) mn"
  shows "MonthFromTime t = mn"
  using month_cases [OF mn] DaysInYear_cases [of "YearFromTime t"] lo hi
  by (elim disjE) (simp_all add: MonthFromTime_def InLeapYear_def MonthStart_def DaysInMonth_def)

lemma MonthFromTime_bounds:
  "MonthStart (YearFromTime t) (MonthFromTime t) \<le> DayWithinYear t"
  "DayWithinYear t < MonthStart (YearFromTime t) (MonthFromTime t)
     + DaysInMonth (YearFromTime t) (MonthFromTime t)"
proof -
  have *: "MonthFromTime t = mn \<Longrightarrow> MonthStart (YearFromTime t) mn \<le> DayWithinYear t
      \<and> DayWithinYear t < MonthStart (YearFromTime t) mn + DaysInMonth (YearFromTime t) mn" for mn
    using DaysInYear_cases [of "YearFromTime t"] DayWithinYear_range [of t]
    unfolding MonthFromTime_def InLeapYear_def Let_def
    by (elim disjE) (simp_all add: MonthStart_def DaysInMonth_def split: if_splits)
  from * [OF refl] show "MonthStart (YearFromTime t) (MonthFromTime t) \<le> DayWithinYear t"
    and "DayWithinYear t < MonthStart (YearFromTime t) (MonthFromTime t)
     + DaysInMonth (YearFromTime t) (MonthFromTime t)" by simp_all
qed

lemma DateFromTime_eq:
  "DateFromTime t = DayWithinYear t - MonthStart (YearFromTime t) (MonthFromTime t) + 1"
  using month_cases [OF MonthFromTime_range [of t]] DaysInYear_cases [of "YearFromTime t"]
  by (elim disjE) (simp_all add: DateFromTime_def InLeapYear_def MonthStart_def)

lemma civil_of_MakeDay:
  assumes mn: "0 \<le> mn" "mn \<le> 11" and dt: "1 \<le> dt" "dt \<le> DaysInMonth y mn"
    and t: "Day t = MakeDay y mn dt"
  shows "YearFromTime t = y" and "MonthFromTime t = mn" and "DateFromTime t = dt"
proof -
  have d: "Day t = DayFromYear y + (MonthStart y mn + dt - 1)"
    using t MakeDay_in_year [OF mn] by simp
  note r = MonthStart_range [OF mn dt]
  have "DayFromYear y \<le> Day t" "Day t < DayFromYear (y + 1)"
    using d r DayFromYear_Suc [of y] by linarith+
  then have "YearFromDay (Day t) = y" by (rule YearFromDay_unique)
  then show y: "YearFromTime t = y" by (simp add: YearFromTime_def)
  have w: "DayWithinYear t = MonthStart y mn + dt - 1"
    using d y by (simp add: DayWithinYear_def)
  show m: "MonthFromTime t = mn"
    by (rule MonthFromTime_eqI [OF mn]) (use dt in \<open>simp_all add: y w\<close>)
  show "DateFromTime t = dt"
    by (simp add: DateFromTime_eq y m w)
qed

lemma MakeDay_civil: "MakeDay (YearFromTime t) (MonthFromTime t) (DateFromTime t) = Day t"
  unfolding MakeDay_in_year [OF MonthFromTime_range] DateFromTime_eq
  by (simp add: DayWithinYear_def)

lemma DateFromTime_range:
  "1 \<le> DateFromTime t" "DateFromTime t \<le> DaysInMonth (YearFromTime t) (MonthFromTime t)"
  using MonthFromTime_bounds [of t] by (simp_all add: DateFromTime_eq)

section \<open>Properties of the Date operations\<close>

lemma TimeClip_valid: "\<bar>t\<bar> \<le> maxTime \<Longrightarrow> TimeClip t = Time_Value t"
  by (simp add: TimeClip_def)

lemma LocalTime_UTC [simp]: "LocalTime tza (UTC tza t) = t" "UTC tza (LocalTime tza t) = t"
  by (simp_all add: LocalTime_def UTC_def)

lemma Day_add_days: "Day (t + k * msPerDay) = Day t + k"
  by (simp add: Day_def msPerDay_def)

lemma TimeWithinDay_add_days: "TimeWithinDay (t + k * msPerDay) = TimeWithinDay t"
  by (simp add: TimeWithinDay_def msPerDay_def)

lemma WeekDay_add_days: "WeekDay (t + k * msPerDay) = (WeekDay t + k) mod 7"
  unfolding WeekDay_def Day_add_days by (simp add: mod_simps algebra_simps)

lemma WeekDay_range: "0 \<le> WeekDay t" "WeekDay t \<le> 6"
  by (simp_all add: WeekDay_def)

lemma setDate_shift:
  "setDate tza (Time_Value t) (plus_number (getDate tza (Time_Value t)) k)
     = TimeClip (t + k * msPerDay)"
proof -
  define lt where "lt = LocalTime tza t"
  have "MakeDay (YearFromTime lt) (MonthFromTime lt) (DateFromTime lt + k) = Day lt + k"
    by (simp add: MakeDay_add_date MakeDay_civil)
  then have "MakeDate (MakeDay (YearFromTime lt) (MonthFromTime lt) (DateFromTime lt + k))
      (TimeWithinDay lt) = lt + k * msPerDay"
    using MakeDate_Day [of lt] by (simp add: MakeDate_def algebra_simps)
  then show ?thesis
    by (simp add: lt_def [symmetric] Let_def) (simp add: lt_def LocalTime_def UTC_def)
qed

lemma getDay_shift:
  "getDay tza (Time_Value (t + k * msPerDay)) = Num ((WeekDay (LocalTime tza t) + k) mod 7)"
proof -
  have "LocalTime tza (t + k * msPerDay) = LocalTime tza t + k * msPerDay"
    by (simp add: LocalTime_def)
  then show ?thesis by (simp add: WeekDay_add_days)
qed

lemma WeekDay_next: "WeekDay (LocalTime tza (t + msPerDay)) = (WeekDay (LocalTime tza t) + 1) mod 7"
proof -
  have "LocalTime tza (t + msPerDay) = LocalTime tza t + 1 * msPerDay"
    by (simp add: LocalTime_def)
  then show ?thesis by (simp only: WeekDay_add_days)
qed

lemma WeekDay_prev: "WeekDay (LocalTime tza (t - msPerDay)) = (WeekDay (LocalTime tza t) - 1) mod 7"
proof -
  have "LocalTime tza (t - msPerDay) = LocalTime tza t + (- 1) * msPerDay"
    by (simp add: LocalTime_def)
  then show ?thesis by (simp only: WeekDay_add_days) simp
qed

lemma setDate_next:
  assumes "\<bar>t + msPerDay\<bar> \<le> maxTime"
  shows "setDate tza (Time_Value t) (plus_number (getDate tza (Time_Value t)) 1)
      = Time_Value (t + msPerDay)"
proof -
  have "setDate tza (Time_Value t) (plus_number (getDate tza (Time_Value t)) 1)
      = TimeClip (t + 1 * msPerDay)" by (rule setDate_shift)
  also have "\<dots> = Time_Value (t + msPerDay)" using assms by (simp add: TimeClip_valid)
  finally show ?thesis .
qed

lemma setDate_prev:
  assumes "\<bar>t - msPerDay\<bar> \<le> maxTime"
  shows "setDate tza (Time_Value t) (plus_number (getDate tza (Time_Value t)) (- 1))
      = Time_Value (t - msPerDay)"
proof -
  have "setDate tza (Time_Value t) (plus_number (getDate tza (Time_Value t)) (- 1))
      = TimeClip (t + (- 1) * msPerDay)" by (rule setDate_shift)
  also have "\<dots> = Time_Value (t - msPerDay)" using assms by (simp add: TimeClip_valid)
  finally show ?thesis .
qed

lemma mod7_hit_up:
  fixes dow w :: int
  assumes "0 \<le> dow" "dow \<le> 6"
  shows "(w + (dow - w) mod 7) mod 7 = dow"
  using assms by (simp add: mod_simps)

lemma mod7_miss_up:
  fixes dow w j :: int
  assumes "0 \<le> j" "j < (dow - w) mod 7"
  shows "(w + j) mod 7 \<noteq> dow"
proof
  assume "(w + j) mod 7 = dow"
  then have "(dow - w) mod 7 = ((w + j) mod 7 - w) mod 7" by simp
  also have "\<dots> = j mod 7" by (simp add: mod_simps)
  also have "\<dots> = j"
    using assms pos_mod_bound [of 7 "dow - w"] by simp
  finally show False using assms by simp
qed

lemma mod7_hit_down:
  fixes dow w :: int
  assumes "0 \<le> dow" "dow \<le> 6"
  shows "(w - (w - dow) mod 7) mod 7 = dow"
  using assms by (simp add: mod_simps)

lemma mod7_miss_down:
  fixes dow w j :: int
  assumes "0 \<le> j" "j < (w - dow) mod 7"
  shows "(w - j) mod 7 \<noteq> dow"
proof
  assume "(w - j) mod 7 = dow"
  then have "(w - dow) mod 7 = (w - (w - j) mod 7) mod 7" by simp
  also have "\<dots> = j mod 7" by (simp add: mod_simps)
  also have "\<dots> = j"
    using assms pos_mod_bound [of 7 "w - dow"] by simp
  finally show False using assms by simp
qed

lemma nth_forward_loop_first:
  "WeekDay (LocalTime tza (t + int n * msPerDay)) = dow
    \<Longrightarrow> (\<And>j. j < n \<Longrightarrow> WeekDay (LocalTime tza (t + int j * msPerDay)) \<noteq> dow)
    \<Longrightarrow> - maxTime \<le> t \<Longrightarrow> t + int n * msPerDay \<le> maxTime
    \<Longrightarrow> nth_forward_loop tza (Time_Value t) dow = Some (Time_Value (t + int n * msPerDay))"
proof (induction n arbitrary: t)
  case 0
  then show ?case by (subst nth_forward_loop.simps) simp
next
  case (Suc n)
  have msp: "0 < msPerDay" by (simp add: msPerDay_def)
  have e: "t + int (Suc j) * msPerDay = t + msPerDay + int j * msPerDay" for j
    by (simp add: algebra_simps)
  have nn: "0 \<le> int n * msPerDay" using msp by simp
  have rng: "\<bar>t + msPerDay\<bar> \<le> maxTime"
    using Suc.prems(3,4) msp nn unfolding e by linarith
  have a: "WeekDay (LocalTime tza (t + msPerDay + int n * msPerDay)) = dow"
    using Suc.prems(1) unfolding e .
  have b: "WeekDay (LocalTime tza (t + msPerDay + int j * msPerDay)) \<noteq> dow" if "j < n" for j
    using Suc.prems(2) [of "Suc j"] that unfolding e by simp
  have c: "- maxTime \<le> t + msPerDay" using Suc.prems(3) msp by simp
  have d: "t + msPerDay + int n * msPerDay \<le> maxTime"
    using Suc.prems(4) unfolding e .
  have "WeekDay (LocalTime tza t) \<noteq> dow" using Suc.prems(2) [of 0] by simp
  then have "getDay tza (Time_Value t) \<noteq> Num dow" by simp
  then have "nth_forward_loop tza (Time_Value t) dow
      = nth_forward_loop tza (Time_Value (t + msPerDay)) dow"
    by (subst nth_forward_loop.simps) (simp only: setDate_next [OF rng] not_False_eq_True if_True)
  also have "\<dots> = Some (Time_Value (t + msPerDay + int n * msPerDay))"
    by (rule Suc.IH [OF a b c d])
  finally show ?case unfolding e .
qed

lemma nth_backward_loop_first:
  "WeekDay (LocalTime tza (t - int n * msPerDay)) = dow
    \<Longrightarrow> (\<And>j. j < n \<Longrightarrow> WeekDay (LocalTime tza (t - int j * msPerDay)) \<noteq> dow)
    \<Longrightarrow> t \<le> maxTime \<Longrightarrow> - maxTime \<le> t - int n * msPerDay
    \<Longrightarrow> nth_backward_loop tza (Time_Value t) dow = Some (Time_Value (t - int n * msPerDay))"
proof (induction n arbitrary: t)
  case 0
  then show ?case by (subst nth_backward_loop.simps) simp
next
  case (Suc n)
  have msp: "0 < msPerDay" by (simp add: msPerDay_def)
  have e: "t - int (Suc j) * msPerDay = t - msPerDay - int j * msPerDay" for j
    by (simp add: algebra_simps)
  have nn: "0 \<le> int n * msPerDay" using msp by simp
  have rng: "\<bar>t - msPerDay\<bar> \<le> maxTime"
    using Suc.prems(3,4) msp nn unfolding e by linarith
  have a: "WeekDay (LocalTime tza (t - msPerDay - int n * msPerDay)) = dow"
    using Suc.prems(1) unfolding e .
  have b: "WeekDay (LocalTime tza (t - msPerDay - int j * msPerDay)) \<noteq> dow" if "j < n" for j
    using Suc.prems(2) [of "Suc j"] that unfolding e by simp
  have c: "t - msPerDay \<le> maxTime" using Suc.prems(3) msp by simp
  have d: "- maxTime \<le> t - msPerDay - int n * msPerDay"
    using Suc.prems(4) unfolding e .
  have "WeekDay (LocalTime tza t) \<noteq> dow" using Suc.prems(2) [of 0] by simp
  then have "getDay tza (Time_Value t) \<noteq> Num dow" by simp
  then have "nth_backward_loop tza (Time_Value t) dow
      = nth_backward_loop tza (Time_Value (t - msPerDay)) dow"
    by (subst nth_backward_loop.simps) (simp only: setDate_prev [OF rng] not_False_eq_True if_True)
  also have "\<dots> = Some (Time_Value (t - msPerDay - int n * msPerDay))"
    by (rule Suc.IH [OF a b c d])
  finally show ?case unfolding e .
qed

lemma maxTime_days: "maxTime = 100000000 * msPerDay"
  by (simp add: maxTime_def msPerDay_def)

lemma day_in_range:
  assumes "\<bar>d\<bar> \<le> 99999990" "\<bar>tza\<bar> \<le> msPerDay"
  shows "\<bar>d * msPerDay - tza\<bar> \<le> maxTime"
proof -
  have "\<bar>d * msPerDay\<bar> \<le> 99999990 * msPerDay"
    using assms(1) by (simp add: abs_mult msPerDay_def)
  then show ?thesis using assms(2) unfolding maxTime_days by (simp add: msPerDay_def)
qed

lemma TimeClip_midnight:
  assumes "\<bar>d\<bar> \<le> 99999990" "\<bar>tza\<bar> \<le> msPerDay"
  shows "TimeClip (d * msPerDay - tza) = local_midnight tza d"
  unfolding local_midnight_def by (rule TimeClip_valid [OF day_in_range [OF assms]])

lemma LocalTime_midnight: "LocalTime tza (d * msPerDay - tza) = d * msPerDay"
  by (simp add: LocalTime_def)

lemma Day_midnight: "Day (d * msPerDay) = d"
  by (simp add: Day_def msPerDay_def)

lemma WeekDay_midnight: "WeekDay (d * msPerDay) = (d + 4) mod 7"
  by (simp add: WeekDay_def Day_midnight)

lemma getDay_midnight: "getDay tza (local_midnight tza d) = Num ((d + 4) mod 7)"
  by (simp add: local_midnight_def LocalTime_midnight WeekDay_midnight)

lemma civil_midnight:
  assumes "0 \<le> mn" "mn \<le> 11" "1 \<le> dt" "dt \<le> DaysInMonth y mn"
  shows "getFullYear tza (local_midnight tza (MakeDay y mn dt)) = Num y"
    and "getMonth tza (local_midnight tza (MakeDay y mn dt)) = Num mn"
    and "getDate tza (local_midnight tza (MakeDay y mn dt)) = Num dt"
  using civil_of_MakeDay [OF assms Day_midnight]
  by (simp_all add: local_midnight_def LocalTime_midnight)

lemma DayFromYear_abs:
  assumes "\<bar>y\<bar> \<le> 270001"
  shows "\<bar>DayFromYear y\<bar> \<le> 99335400"
  using DayFromYear_bounds [of y] assms by linarith

lemma MonthStart_bounds: "0 \<le> MonthStart y mn" "MonthStart y mn \<le> 335"
  by (simp_all add: MonthStart_def Let_def)

lemma DaysInMonth_bounds: "28 \<le> DaysInMonth y mn" "DaysInMonth y mn \<le> 31"
  by (simp_all add: DaysInMonth_def)

lemma MakeDay_abs:
  assumes "\<bar>y\<bar> \<le> 270000" "0 \<le> mn" "mn \<le> 11"
  shows "\<bar>MakeDay y mn 1\<bar> \<le> 99335800"
proof -
  have "\<bar>y\<bar> \<le> 270001" using assms(1) by simp
  from DayFromYear_abs [OF this] MonthStart_bounds [of y mn]
  show ?thesis unfolding MakeDay_in_year [OF assms(2,3)] by linarith
qed

lemma local_midnight_shift:
  "local_midnight tza (d + k) = Time_Value (d * msPerDay - tza + k * msPerDay)"
  by (simp add: local_midnight_def algebra_simps)

lemma forward_first:
  assumes dow: "0 \<le> dow" "dow \<le> 6" and F: "\<bar>F\<bar> \<le> 99999000" and tza: "\<bar>tza\<bar> \<le> msPerDay"
  shows "nth_forward_loop tza (local_midnight tza F) dow
     = Some (local_midnight tza (F + (dow - (F + 4)) mod 7))"
proof -
  define k where "k = (dow - (F + 4)) mod 7"
  define t where "t = F * msPerDay - tza"
  have k: "0 \<le> k" "k \<le> 6" by (simp_all add: k_def)
  have w: "WeekDay (LocalTime tza (t + j * msPerDay)) = (F + 4 + j) mod 7" for j
  proof -
    have e: "LocalTime tza (t + j * msPerDay) = (F + j) * msPerDay"
      by (simp add: t_def LocalTime_def algebra_simps)
    show ?thesis unfolding e WeekDay_midnight by (simp add: algebra_simps)
  qed
  have hit: "WeekDay (LocalTime tza (t + int (nat k) * msPerDay)) = dow"
    using k mod7_hit_up [OF dow, of "F + 4"] by (simp add: w k_def)
  have miss: "WeekDay (LocalTime tza (t + int j * msPerDay)) \<noteq> dow" if "j < nat k" for j
  proof -
    have "int j < (dow - (F + 4)) mod 7" using that k by (simp add: k_def)
    from mod7_miss_up [OF _ this] show ?thesis by (simp add: w)
  qed
  have r0: "\<bar>F\<bar> \<le> 99999990" "\<bar>F + k\<bar> \<le> 99999990" using F k by linarith+
  have lo: "- maxTime \<le> t" using day_in_range [OF r0(1) tza] by (simp add: t_def)
  have "t + int (nat k) * msPerDay = (F + k) * msPerDay - tza"
    using k by (simp add: t_def algebra_simps)
  then have hi: "t + int (nat k) * msPerDay \<le> maxTime"
    using day_in_range [OF r0(2) tza] by simp
  have "nth_forward_loop tza (Time_Value t) dow = Some (Time_Value (t + int (nat k) * msPerDay))"
    using hit miss lo hi by (rule nth_forward_loop_first)
  then show ?thesis using k
    by (simp add: local_midnight_def t_def k_def algebra_simps)
qed

lemma backward_last:
  assumes dow: "0 \<le> dow" "dow \<le> 6" and L: "\<bar>L\<bar> \<le> 99999000" and tza: "\<bar>tza\<bar> \<le> msPerDay"
  shows "nth_backward_loop tza (local_midnight tza L) dow
     = Some (local_midnight tza (L - (L + 4 - dow) mod 7))"
proof -
  define k where "k = (L + 4 - dow) mod 7"
  define t where "t = L * msPerDay - tza"
  have k: "0 \<le> k" "k \<le> 6" by (simp_all add: k_def)
  have w: "WeekDay (LocalTime tza (t - j * msPerDay)) = (L + 4 - j) mod 7" for j
  proof -
    have e: "LocalTime tza (t - j * msPerDay) = (L - j) * msPerDay"
      by (simp add: t_def LocalTime_def algebra_simps)
    show ?thesis unfolding e WeekDay_midnight by (simp add: algebra_simps)
  qed
  have hit: "WeekDay (LocalTime tza (t - int (nat k) * msPerDay)) = dow"
    using k mod7_hit_down [OF dow, of "L + 4"] by (simp add: w k_def)
  have miss: "WeekDay (LocalTime tza (t - int j * msPerDay)) \<noteq> dow" if "j < nat k" for j
  proof -
    have "int j < (L + 4 - dow) mod 7" using that k by (simp add: k_def)
    from mod7_miss_down [OF _ this] show ?thesis by (simp add: w)
  qed
  have r0: "\<bar>L\<bar> \<le> 99999990" "\<bar>L - k\<bar> \<le> 99999990" using L k by linarith+
  have hi: "t \<le> maxTime" using day_in_range [OF r0(1) tza] by (simp add: t_def)
  have "t - int (nat k) * msPerDay = (L - k) * msPerDay - tza"
    using k by (simp add: t_def algebra_simps)
  then have lo: "- maxTime \<le> t - int (nat k) * msPerDay"
    using day_in_range [OF r0(2) tza] by simp
  have "nth_backward_loop tza (Time_Value t) dow = Some (Time_Value (t - int (nat k) * msPerDay))"
    using hit miss hi lo by (rule nth_backward_loop_first)
  then show ?thesis using k
    by (simp add: local_midnight_def t_def k_def algebra_simps)
qed

lemma MakeDay_normalise: "MakeDay y m d = MakeDay (y + m div 12) (m mod 12) d"
proof -
  have "(m mod 12) div 12 = 0" by simp
  then show ?thesis by (simp add: MakeDay_def Let_def)
qed

lemma local_date_civil:
  assumes tod: "0 \<le> tod" "tod < msPerDay"
    and d: "1 \<le> d" "d \<le> DaysInMonth (y + m div 12) (m mod 12)"
    and v: "local_date tza y m d tod \<noteq> Invalid_Date"
  shows "getFullYear tza (local_date tza y m d tod) = Num (y + m div 12)"
    and "getMonth tza (local_date tza y m d tod) = Num (m mod 12)"
    and "getDate tza (local_date tza y m d tod) = Num d"
proof -
  let ?lt = "MakeDate (MakeDay y m d) tod"
  have e: "local_date tza y m d tod = Time_Value (UTC tza ?lt)"
    using v by (auto simp: local_date_def TimeClip_def split: if_splits)
  have mn: "0 \<le> m mod 12" "m mod 12 \<le> 11" by simp_all
  have "Day ?lt = MakeDay y m d" by (rule Day_MakeDate [OF tod])
  then have day: "Day ?lt = MakeDay (y + m div 12) (m mod 12) d"
    using MakeDay_normalise [of y m d] by simp
  note civ = civil_of_MakeDay [OF mn d day]
  show "getFullYear tza (local_date tza y m d tod) = Num (y + m div 12)"
    unfolding e by (simp add: civ)
  show "getMonth tza (local_date tza y m d tod) = Num (m mod 12)"
    unfolding e by (simp add: civ)
  show "getDate tza (local_date tza y m d tod) = Num d"
    unfolding e by (simp add: civ)
qed

lemma setMonth_shift:
  "setMonth tza (Time_Value t) (plus_number (getMonth tza (Time_Value t)) k)
     = local_date tza (YearFromTime (LocalTime tza t)) (MonthFromTime (LocalTime tza t) + k)
         (DateFromTime (LocalTime tza t)) (TimeWithinDay (LocalTime tza t))"
  by (simp add: local_date_def Let_def)

lemma setFullYear_shift:
  "setFullYear tza (Time_Value t) (plus_number (getFullYear tza (Time_Value t)) k)
     = local_date tza (YearFromTime (LocalTime tza t) + k) (MonthFromTime (LocalTime tza t))
         (DateFromTime (LocalTime tza t)) (TimeWithinDay (LocalTime tza t))"
  by (simp add: local_date_def Let_def)

lemma calculateRelativeDate_days:
  "calculateRelativeDate tza (Time_Value t) period ''days'' direction
     = Inr (TimeClip (t + (if direction = ''before'' then - period else period) * msPerDay))"
  unfolding calculateRelativeDate_def Let_def by (simp only: setDate_shift) simp

lemma calculateRelativeDate_weeks:
  "calculateRelativeDate tza (Time_Value t) period ''weeks'' direction
     = Inr (TimeClip (t + 7 * (if direction = ''before'' then - period else period) * msPerDay))"
  unfolding calculateRelativeDate_def Let_def
  by (simp only: setDate_shift) (simp add: algebra_simps)

lemma calculateRelativeDate_months:
  "calculateRelativeDate tza (Time_Value t) period ''months'' direction
     = Inr (local_date tza (YearFromTime (LocalTime tza t))
         (MonthFromTime (LocalTime tza t) + (if direction = ''before'' then - period else period))
         (DateFromTime (LocalTime tza t)) (TimeWithinDay (LocalTime tza t)))"
  unfolding calculateRelativeDate_def Let_def by (simp only: setMonth_shift) simp

lemma calculateRelativeDate_years:
  "calculateRelativeDate tza (Time_Value t) period ''years'' direction
     = Inr (local_date tza
         (YearFromTime (LocalTime tza t) + (if direction = ''before'' then - period else period))
         (MonthFromTime (LocalTime tza t))
         (DateFromTime (LocalTime tza t)) (TimeWithinDay (LocalTime tza t)))"
  unfolding calculateRelativeDate_def Let_def by (simp only: setFullYear_shift) simp

lemma calculateRelativeDate_invalid_unit:
  assumes "unit \<noteq> ''days''" "unit \<noteq> ''weeks''" "unit \<noteq> ''months''" "unit \<noteq> ''years''"
  shows "calculateRelativeDate tza baseDate period unit direction = Inl (InvalidUnit unit)"
  using assms by (simp add: calculateRelativeDate_def Let_def)

section \<open>The nth weekday of a month\<close>

lemma new_Date_eq:
  "new_Date tza (Num y) (Num m) (Num dt)
     = TimeClip (MakeDay (full_year y) m dt * msPerDay - tza)"
  by (simp add: new_Date_def MakeDate_def UTC_def)

lemma full_year_abs: "\<bar>y\<bar> \<le> 270000 \<Longrightarrow> \<bar>full_year y\<bar> \<le> 270000"
  by (simp add: full_year_def)

lemma month_component_date:
  assumes mon: "1 \<le> mon" "mon \<le> 12" and year: "\<bar>year\<bar> \<le> 270000"
    and tza: "\<bar>tza\<bar> \<le> msPerDay" and j: "\<bar>j\<bar> \<le> 600000"
  shows "new_Date tza (Num year) (Num (mon - 1)) (Num j)
     = local_midnight tza (MakeDay (full_year year) (mon - 1) 1 + j - 1)"
proof -
  have m: "0 \<le> mon - 1" "mon - 1 \<le> 11" using mon by simp_all
  have "MakeDay (full_year year) (mon - 1) (1 + (j - 1))
      = MakeDay (full_year year) (mon - 1) 1 + (j - 1)" by (rule MakeDay_add_date)
  then have e: "MakeDay (full_year year) (mon - 1) j
      = MakeDay (full_year year) (mon - 1) 1 + j - 1" by simp
  have "\<bar>MakeDay (full_year year) (mon - 1) 1 + j - 1\<bar> \<le> 99999990"
    using MakeDay_abs [OF full_year_abs [OF year] m] j by linarith
  from TimeClip_midnight [OF this tza] show ?thesis
    unfolding new_Date_eq e .
qed

lemma month_last_day:
  assumes mon: "1 \<le> mon" "mon \<le> 12" and year: "\<bar>year\<bar> \<le> 270000"
    and tza: "\<bar>tza\<bar> \<le> msPerDay"
  shows "new_Date tza (Num year) (Num mon) (Num 0)
     = local_midnight tza (MakeDay (full_year year) (mon - 1) 1
         + DaysInMonth (full_year year) (mon - 1) - 1)"
proof -
  let ?Y = "full_year year"
  have m: "0 \<le> mon - 1" "mon - 1 \<le> 11" using mon by simp_all
  have "MakeDay ?Y mon (1 + (- 1)) = MakeDay ?Y mon 1 + (- 1)" by (rule MakeDay_add_date)
  moreover have "MakeDay ?Y (mon - 1 + 1) 1 = MakeDay ?Y (mon - 1) 1 + DaysInMonth ?Y (mon - 1)"
    by (rule MonthStart_next [OF m])
  ultimately have e: "MakeDay ?Y mon 0 = MakeDay ?Y (mon - 1) 1 + DaysInMonth ?Y (mon - 1) - 1"
    by simp
  have "\<bar>MakeDay ?Y (mon - 1) 1 + DaysInMonth ?Y (mon - 1) - 1\<bar> \<le> 99999990"
    using MakeDay_abs [OF full_year_abs [OF year] m] DaysInMonth_bounds [of ?Y "mon - 1"]
    by linarith
  from TimeClip_midnight [OF this tza] show ?thesis
    unfolding new_Date_eq e .
qed

lemma month_first_occurrence:
  assumes mon: "1 \<le> mon" "mon \<le> 12" and year: "\<bar>year\<bar> \<le> 270000"
    and tza: "\<bar>tza\<bar> \<le> msPerDay" and dow: "0 \<le> dow" "dow \<le> 6"
  shows "nth_forward_loop tza (new_Date tza (Num year) (Num (mon - 1)) (Num 1)) dow
     = Some (local_midnight tza (MakeDay (full_year year) (mon - 1) 1
         + (dow - (MakeDay (full_year year) (mon - 1) 1 + 4)) mod 7))"
proof -
  let ?F = "MakeDay (full_year year) (mon - 1) 1"
  have m: "0 \<le> mon - 1" "mon - 1 \<le> 11" using mon by simp_all
  have F: "\<bar>?F\<bar> \<le> 99999000" using MakeDay_abs [OF full_year_abs [OF year] m] by linarith
  have "new_Date tza (Num year) (Num (mon - 1)) (Num 1) = local_midnight tza ?F"
    using month_component_date [OF mon year tza, of 1] by simp
  then show ?thesis using forward_first [OF dow F tza] by simp
qed

lemma calculateNthDate_forward:
  assumes mon: "1 \<le> mon" "mon \<le> 12" and year: "\<bar>year\<bar> \<le> 270000"
    and tza: "\<bar>tza\<bar> \<le> msPerDay" and dow: "0 \<le> dow" "dow \<le> 6" and n: "n \<noteq> - 1"
  shows "calculateNthDate tza n dow mon year =
     (let k = (dow - (MakeDay (full_year year) (mon - 1) 1 + 4)) mod 7;
          adv = new_Date tza (Num year) (Num (mon - 1)) (Num (1 + k + (n - 1) * 7))
      in Some (if getMonth tza adv = Num (mon - 1) then Inr adv
               else Inl (NoOccurrenceInMonth n)))"
proof -
  let ?F = "MakeDay (full_year year) (mon - 1) 1"
  define k where "k = (dow - (?F + 4)) mod 7"
  have e1: "1 + k + (n - 1) * 7 = 1 + (k + (n - 1) * 7)" by simp
  have e2: "(?F + (k + (n - 1) * 7)) * msPerDay - tza
      = (?F + k) * msPerDay - tza + (n - 1) * 7 * msPerDay" by (simp add: algebra_simps)
  have adv: "new_Date tza (Num year) (Num (mon - 1)) (Num (1 + k + (n - 1) * 7))
      = TimeClip ((?F + k) * msPerDay - tza + (n - 1) * 7 * msPerDay)"
    unfolding new_Date_eq e1 MakeDay_add_date e2 ..
  have "setDate tza (local_midnight tza (?F + k))
      (plus_number (getDate tza (local_midnight tza (?F + k))) ((n - 1) * 7))
    = TimeClip ((?F + k) * msPerDay - tza + (n - 1) * 7 * msPerDay)"
    unfolding local_midnight_def by (rule setDate_shift)
  then have step: "setDate tza (local_midnight tza (?F + k))
      (plus_number (getDate tza (local_midnight tza (?F + k))) ((n - 1) * 7))
    = new_Date tza (Num year) (Num (mon - 1)) (Num (1 + k + (n - 1) * 7))"
    using adv by simp
  show ?thesis
    unfolding calculateNthDate_def Let_def month_first_occurrence [OF mon year tza dow]
      k_def [symmetric]
    using n by (simp only: option.case step if_False) (simp split: if_splits)
qed

lemma calculateNthDate_last:
  assumes mon: "1 \<le> mon" "mon \<le> 12" and year: "\<bar>year\<bar> \<le> 270000"
    and tza: "\<bar>tza\<bar> \<le> msPerDay" and dow: "0 \<le> dow" "dow \<le> 6"
  shows "calculateNthDate tza (- 1) dow mon year =
     (let L = MakeDay (full_year year) (mon - 1) 1 + DaysInMonth (full_year year) (mon - 1) - 1
      in Some (Inr (local_midnight tza (L - (L + 4 - dow) mod 7))))"
proof -
  let ?Y = "full_year year"
  let ?L = "MakeDay ?Y (mon - 1) 1 + DaysInMonth ?Y (mon - 1) - 1"
  have m: "0 \<le> mon - 1" "mon - 1 \<le> 11" using mon by simp_all
  have L: "\<bar>?L\<bar> \<le> 99999000"
    using MakeDay_abs [OF full_year_abs [OF year] m] DaysInMonth_bounds [of ?Y "mon - 1"]
    by linarith
  show ?thesis
    unfolding calculateNthDate_def Let_def month_first_occurrence [OF mon year tza dow]
      month_last_day [OF mon year tza] backward_last [OF dow L tza]
    by (simp only: option.case simp_thms if_True)
qed

lemma calculateNthDate_returns:
  assumes "1 \<le> mon" "mon \<le> 12" "\<bar>year\<bar> \<le> 270000" "\<bar>tza\<bar> \<le> msPerDay"
    "0 \<le> dow" "dow \<le> 6"
  shows "\<exists>r. calculateNthDate tza n dow mon year = Some r"
proof (cases "n = - 1")
  case True
  then show ?thesis using calculateNthDate_last [OF assms] by (simp add: Let_def)
next
  case False
  then show ?thesis using calculateNthDate_forward [OF assms False] by (simp add: Let_def)
qed

lemma WeekDay_first_of_month: "WeekDay (MakeDate F 0) = (F + 4) mod 7"
  by (simp add: MakeDate_def WeekDay_midnight)

lemma first_offset_eq: "(dow - (F + 4) mod 7) mod 7 = (dow - (F + 4)) mod (7::int)"
  by (simp add: mod_simps)

lemma month_first_is_least:
  assumes mon: "1 \<le> mon" "mon \<le> 12" and year: "\<bar>year\<bar> \<le> 270000"
    and tza: "\<bar>tza\<bar> \<le> msPerDay" and dow: "0 \<le> dow" "dow \<le> 6"
  shows "(LEAST j. 1 \<le> j \<and> getDay tza (new_Date tza (Num year) (Num (mon - 1)) (Num j)) = Num dow)
     = 1 + (dow - (MakeDay (full_year year) (mon - 1) 1 + 4)) mod 7"
proof (rule Least_equality)
  let ?F = "MakeDay (full_year year) (mon - 1) 1"
  let ?k = "(dow - (?F + 4)) mod 7"
  have k: "0 \<le> ?k" "?k \<le> 6" by simp_all
  have D: "getDay tza (new_Date tza (Num year) (Num (mon - 1)) (Num j))
      = Num ((?F + 4 + (j - 1)) mod 7)" if "\<bar>j\<bar> \<le> 600000" for j
    unfolding month_component_date [OF mon year tza that] getDay_midnight
    by (simp add: algebra_simps)
  have "\<bar>1 + ?k\<bar> \<le> 600000" using k by linarith
  from D [OF this] mod7_hit_up [OF dow, of "?F + 4"]
  show "1 \<le> 1 + ?k \<and> getDay tza (new_Date tza (Num year) (Num (mon - 1)) (Num (1 + ?k))) = Num dow"
    using k by simp
  fix y
  assume y: "1 \<le> y \<and> getDay tza (new_Date tza (Num year) (Num (mon - 1)) (Num y)) = Num dow"
  show "1 + ?k \<le> y"
  proof (rule ccontr)
    assume "\<not> 1 + ?k \<le> y"
    then have lt: "0 \<le> y - 1" "y - 1 < ?k" using y by simp_all
    then have "\<bar>y\<bar> \<le> 600000" using k by linarith
    from D [OF this] y have "(?F + 4 + (y - 1)) mod 7 = dow" by simp
    with mod7_miss_up [OF lt] show False by simp
  qed
qed

lemma month_date_civil:
  assumes mon: "1 \<le> mon" "mon \<le> 12" and year: "\<bar>year\<bar> \<le> 270000"
    and tza: "\<bar>tza\<bar> \<le> msPerDay" and j: "1 \<le> j" "j \<le> DaysInMonth (full_year year) (mon - 1)"
  shows "getFullYear tza (new_Date tza (Num year) (Num (mon - 1)) (Num j)) = Num (full_year year)"
    and "getMonth tza (new_Date tza (Num year) (Num (mon - 1)) (Num j)) = Num (mon - 1)"
    and "getDate tza (new_Date tza (Num year) (Num (mon - 1)) (Num j)) = Num j"
proof -
  let ?Y = "full_year year"
  have m: "0 \<le> mon - 1" "mon - 1 \<le> 11" using mon by simp_all
  have "\<bar>j\<bar> \<le> 600000" using j DaysInMonth_bounds [of ?Y "mon - 1"] by linarith
  note D = month_component_date [OF mon year tza this]
  have "MakeDay ?Y (mon - 1) (1 + (j - 1)) = MakeDay ?Y (mon - 1) 1 + (j - 1)"
    by (rule MakeDay_add_date)
  then have e: "MakeDay ?Y (mon - 1) 1 + j - 1 = MakeDay ?Y (mon - 1) j" by simp
  show "getFullYear tza (new_Date tza (Num year) (Num (mon - 1)) (Num j)) = Num ?Y"
    unfolding D e by (rule civil_midnight [OF m j])
  show "getMonth tza (new_Date tza (Num year) (Num (mon - 1)) (Num j)) = Num (mon - 1)"
    unfolding D e by (rule civil_midnight [OF m j])
  show "getDate tza (new_Date tza (Num year) (Num (mon - 1)) (Num j)) = Num j"
    unfolding D e by (rule civil_midnight [OF m j])
qed

lemma month_last_is_greatest:
  assumes mon: "1 \<le> mon" "mon \<le> 12" and year: "\<bar>year\<bar> \<le> 270000"
    and tza: "\<bar>tza\<bar> \<le> msPerDay" and dow: "0 \<le> dow" "dow \<le> 6"
  shows "(GREATEST j. j \<le> DaysInMonth (full_year year) (mon - 1)
            \<and> getDay tza (new_Date tza (Num year) (Num (mon - 1)) (Num j)) = Num dow)
     = DaysInMonth (full_year year) (mon - 1)
       - (MakeDay (full_year year) (mon - 1) 1 + DaysInMonth (full_year year) (mon - 1) - 1 + 4 - dow) mod 7"
proof (rule Greatest_equality)
  let ?F = "MakeDay (full_year year) (mon - 1) 1"
  let ?len = "DaysInMonth (full_year year) (mon - 1)"
  let ?L = "?F + ?len - 1"
  let ?k = "(?L + 4 - dow) mod 7"
  have k: "0 \<le> ?k" "?k \<le> 6" by simp_all
  note len = DaysInMonth_bounds [of "full_year year" "mon - 1"]
  have D: "getDay tza (new_Date tza (Num year) (Num (mon - 1)) (Num j))
      = Num ((?L + 4 - (?len - j)) mod 7)" if "\<bar>j\<bar> \<le> 600000" for j
    unfolding month_component_date [OF mon year tza that] getDay_midnight
    by (simp add: algebra_simps)
  have "\<bar>?len - ?k\<bar> \<le> 600000" using k len by linarith
  from D [OF this] mod7_hit_down [OF dow, of "?L + 4"]
  show "?len - ?k \<le> ?len \<and> getDay tza (new_Date tza (Num year) (Num (mon - 1)) (Num (?len - ?k))) = Num dow"
    using k by simp
  fix y
  assume y: "y \<le> ?len \<and> getDay tza (new_Date tza (Num year) (Num (mon - 1)) (Num y)) = Num dow"
  show "y \<le> ?len - ?k"
  proof (rule ccontr)
    assume "\<not> y \<le> ?len - ?k"
    then have lt: "0 \<le> ?len - y" "?len - y < ?k" using y by simp_all
    then have "\<bar>y\<bar> \<le> 600000" using k len by linarith
    from D [OF this] y have "(?L + 4 - (?len - y)) mod 7 = dow" by simp
    with mod7_miss_down [OF lt] show False by simp
  qed
qed

lemma WeekDay_last_of_month:
  assumes "0 \<le> mn" "mn \<le> 11"
  shows "WeekDay (MakeDate (MakeDay y mn (DaysInMonth y mn)) 0)
     = (MakeDay y mn 1 + DaysInMonth y mn - 1 + 4) mod 7"
proof -
  have "MakeDay y mn (1 + (DaysInMonth y mn - 1)) = MakeDay y mn 1 + (DaysInMonth y mn - 1)"
    by (rule MakeDay_add_date)
  then have "MakeDay y mn (DaysInMonth y mn) = MakeDay y mn 1 + DaysInMonth y mn - 1" by simp
  then show ?thesis by (simp add: WeekDay_first_of_month)
qed

lemma last_offset_eq: "((L + 4) mod 7 - dow) mod 7 = (L + 4 - dow) mod (7::int)"
  by (simp add: mod_simps)

section \<open>Properties of calculateEventDate\<close>

lemma calculateEventDate_fixed:
  assumes "dateType e = ''fixed''"
  shows "calculateEventDate tza cy e evs =
     (case startDate e of
        None \<Rightarrow> Some None
      | Some dateValue \<Rightarrow>
          if dateValue = DateString [] then Some None
          else Some (Some (parseSimpleDate tza dateValue)))"
  using assms by (subst calculateEventDate.simps) simp

lemma calculateEventDate_nth:
  assumes "dateType e = ''nth''"
  shows "calculateEventDate tza cy e evs =
     (case (nthOccurrence e, dayOfWeek e, month e) of
        (Some n, Some dow, Some mon) \<Rightarrow>
          if n = 0 \<or> mon = 0 then Some None
          else
            (case calculateNthDate tza n dow mon
                    (case baseYear e of None \<Rightarrow> cy | Some y \<Rightarrow> if y = 0 then cy else y) of
               None \<Rightarrow> None
             | Some (Inl err) \<Rightarrow> Some None
             | Some (Inr d) \<Rightarrow> Some (Some d))
      | _ \<Rightarrow> Some None)"
  using assms by (subst calculateEventDate.simps) (simp add: Let_def split: option.splits)

lemma calculateEventDate_other:
  assumes "dateType e \<noteq> ''fixed''" "dateType e \<noteq> ''nth''" "dateType e \<noteq> ''relative''"
  shows "calculateEventDate tza cy e evs = Some None"
  using assms by (subst calculateEventDate.simps) simp

lemma calculateEventDate_no_reference:
  assumes "dateType e = ''relative''" "reference_of e evs = None"
  shows "calculateEventDate tza cy e evs = Some None"
  using assms
  by (subst calculateEventDate.simps)
     (auto simp: reference_of_def split: option.splits if_splits)

lemma reference_of_SomeD:
  assumes "reference_of e evs = Some r"
  obtains name period unit direction where
    "dateType e = ''relative''" "relativeEventName e = Some name" "relativePeriod e = Some period"
    "relativeUnit e = Some unit" "relativeDirection e = Some direction"
    "name \<noteq> []" "period \<noteq> 0" "unit \<noteq> []" "direction \<noteq> []"
    "find (\<lambda>x. title x = name) evs = Some r"
proof -
  from assms have rel: "dateType e = ''relative''"
    by (simp add: reference_of_def split: if_splits)
  from assms rel obtain name where n: "relativeEventName e = Some name"
    by (cases "relativeEventName e") (simp_all add: reference_of_def)
  from assms rel n obtain period where p: "relativePeriod e = Some period"
    by (cases "relativePeriod e") (simp_all add: reference_of_def)
  from assms rel n p obtain unit where u: "relativeUnit e = Some unit"
    by (cases "relativeUnit e") (simp_all add: reference_of_def)
  from assms rel n p u obtain direction where d: "relativeDirection e = Some direction"
    by (cases "relativeDirection e") (simp_all add: reference_of_def)
  from assms rel n p u d have "name \<noteq> []" "period \<noteq> 0" "unit \<noteq> []" "direction \<noteq> []"
    "find (\<lambda>x. title x = name) evs = Some r"
    by (simp_all add: reference_of_def split: if_splits)
  with rel n p u d show ?thesis by (rule that)
qed

lemma calculateEventDate_reference:
  assumes "reference_of e evs = Some r"
  shows "calculateEventDate tza cy e evs =
     do {
       referenceDate \<leftarrow> calculateEventDate tza cy r evs;
       case referenceDate of
         None \<Rightarrow> Some None
       | Some refDate \<Rightarrow>
           (case calculateRelativeDate tza refDate (the (relativePeriod e)) (the (relativeUnit e))
                   (the (relativeDirection e)) of
              Inl err \<Rightarrow> Some None
            | Inr d \<Rightarrow> Some (Some d))
     }"
proof -
  from assms obtain name period unit direction where f:
    "dateType e = ''relative''" "relativeEventName e = Some name" "relativePeriod e = Some period"
    "relativeUnit e = Some unit" "relativeDirection e = Some direction"
    "name \<noteq> []" "period \<noteq> 0" "unit \<noteq> []" "direction \<noteq> []"
    "find (\<lambda>x. title x = name) evs = Some r"
    by (rule reference_of_SomeD)
  show ?thesis
    by (subst calculateEventDate.simps) (simp add: f)
qed

lemma reference_of_in_set: "reference_of e evs = Some r \<Longrightarrow> r \<in> set evs"
  by (auto simp: reference_of_def find_Some_iff split: option.splits if_splits)

lemma calculateEventDate_nth_returns:
  assumes nth: "dateType e = ''nth''" and rng: "nth_fields_in_range e"
    and cy: "\<bar>cy\<bar> \<le> 270000" and tza: "\<bar>tza\<bar> \<le> msPerDay"
  shows "\<exists>r. calculateEventDate tza cy e evs = Some r"
proof (cases "nthOccurrence e = None \<or> dayOfWeek e = None \<or> month e = None")
  case True
  then show ?thesis
    unfolding calculateEventDate_nth [OF nth] by (auto split: option.splits)
next
  case False
  then obtain n dow mon where f: "nthOccurrence e = Some n" "dayOfWeek e = Some dow"
    "month e = Some mon" by auto
  define yr where "yr = (case baseYear e of None \<Rightarrow> cy | Some y \<Rightarrow> if y = 0 then cy else y)"
  show ?thesis
  proof (cases "n = 0 \<or> mon = 0")
    case True
    then show ?thesis unfolding calculateEventDate_nth [OF nth] by (auto simp: f)
  next
    case nz: False
    have "0 \<le> dow" "dow \<le> 6" "1 \<le> mon" "mon \<le> 12" "\<bar>yr\<bar> \<le> 270000"
      using rng f nz cy by (auto simp: nth_fields_in_range_def yr_def split: option.splits)
    then obtain r where r: "calculateNthDate tza n dow mon yr = Some r"
      using calculateNthDate_returns [of mon yr tza dow n] tza by blast
    show ?thesis
      unfolding calculateEventDate_nth [OF nth] using nz r
      by (cases r) (simp_all add: f yr_def [symmetric])
  qed
qed

lemma calculateEventDate_end_returns:
  assumes nr: "reference_of e evs = None" and rng: "nth_fields_in_range e"
    and cy: "\<bar>cy\<bar> \<le> 270000" and tza: "\<bar>tza\<bar> \<le> msPerDay"
  shows "\<exists>r. calculateEventDate tza cy e evs = Some r"
proof -
  consider "dateType e = ''fixed''" | "dateType e = ''nth''" | "dateType e = ''relative''"
    | "dateType e \<noteq> ''fixed''" "dateType e \<noteq> ''nth''" "dateType e \<noteq> ''relative''"
    by blast
  then show ?thesis
  proof cases
    case 1
    then show ?thesis by (simp add: calculateEventDate_fixed split: option.splits)
  next
    case 2
    then show ?thesis by (rule calculateEventDate_nth_returns [OF _ rng cy tza])
  next
    case 3
    then show ?thesis using calculateEventDate_no_reference [OF 3 nr] by simp
  next
    case 4
    then show ?thesis using calculateEventDate_other by blast
  qed
qed

lemma calculateEventDate_reference_returns:
  assumes "reference_of e evs = Some r" "calculateEventDate tza cy r evs = Some x"
  shows "\<exists>y. calculateEventDate tza cy e evs = Some y"
  unfolding calculateEventDate_reference [OF assms(1)] assms(2)
  by (simp split: option.splits sum.splits)

lemma calculateEventDate_returns:
  assumes rng: "\<forall>x \<in> set evs. nth_fields_in_range x"
    and cy: "\<bar>cy\<bar> \<le> 270000" and tza: "\<bar>tza\<bar> \<le> msPerDay"
  shows "nth_fields_in_range e \<Longrightarrow> chain_ends n e evs
    \<Longrightarrow> \<exists>r. calculateEventDate tza cy e evs = Some r"
proof (induction n arbitrary: e)
  case 0
  then have "reference_of e evs = None" by simp
  then show ?case using "0.prems"(1) cy tza by (rule calculateEventDate_end_returns)
next
  case (Suc n)
  show ?case
  proof (cases "reference_of e evs")
    case None
    then show ?thesis using Suc.prems(1) cy tza by (rule calculateEventDate_end_returns)
  next
    case (Some r)
    then have "r \<in> set evs" by (rule reference_of_in_set)
    with rng have a: "nth_fields_in_range r" by blast
    have b: "chain_ends n r evs" using Suc.prems(2) Some by simp
    from Suc.IH [OF a b] obtain x where "calculateEventDate tza cy r evs = Some x" ..
    with Some show ?thesis by (rule calculateEventDate_reference_returns)
  qed
qed

lemma calculateEventDate_Some_chain_ends:
  assumes "calculateEventDate tza cy e evs = Some y"
  shows "\<exists>n. chain_ends n e evs"
proof (rule calculateEventDate.raw_induct
    [where P = "\<lambda>tza cy e evs y. \<exists>n. chain_ends n e evs", OF _ assms])
  fix f :: "int \<Rightarrow> int \<Rightarrow> event \<Rightarrow> event list \<Rightarrow> Date option option"
    and tza cy :: int and e :: event and evs :: "event list" and y :: "Date option"
  assume IH: "\<And>a b c d y. f a b c d = Some y \<Longrightarrow> \<exists>n. chain_ends n c d"
  assume body: "(if dateType e = ''fixed'' then
        (case startDate e of
           None \<Rightarrow> Some None
         | Some dateValue \<Rightarrow>
             if dateValue = DateString [] then Some None
             else Some (Some (parseSimpleDate tza dateValue)))
      else if dateType e = ''nth'' then
        (case (nthOccurrence e, dayOfWeek e, month e) of
           (Some n, Some dow, Some mon) \<Rightarrow>
             if n = 0 \<or> mon = 0 then Some None
             else
               (let baseYear' = (case baseYear e of
                                   None \<Rightarrow> cy
                                 | Some y \<Rightarrow> if y = 0 then cy else y)
                in case calculateNthDate tza n dow mon baseYear' of
                     None \<Rightarrow> None
                   | Some (Inl err) \<Rightarrow> Some None
                   | Some (Inr d) \<Rightarrow> Some (Some d))
         | _ \<Rightarrow> Some None)
      else if dateType e = ''relative'' then
        (case (relativeEventName e, relativePeriod e, relativeUnit e,
               relativeDirection e) of
           (Some name, Some period, Some unit, Some direction) \<Rightarrow>
             if name = [] \<or> period = 0 \<or> unit = [] \<or> direction = [] then Some None
             else
               (case find (\<lambda>e. title e = name) evs of
                  None \<Rightarrow> Some None
                | Some referenceEvent \<Rightarrow>
                    do {
                      referenceDate \<leftarrow> f tza cy referenceEvent evs;
                      case referenceDate of
                        None \<Rightarrow> Some None
                      | Some refDate \<Rightarrow>
                          (case calculateRelativeDate tza refDate period unit direction of
                             Inl err \<Rightarrow> Some None
                           | Inr d \<Rightarrow> Some (Some d))
                    })
         | _ \<Rightarrow> Some None)
      else Some None) = Some y"
  show "\<exists>n. chain_ends n e evs"
  proof (cases "reference_of e evs")
    case None
    then have "chain_ends 0 e evs" by simp
    then show ?thesis ..
  next
    case (Some r)
    then obtain name period unit direction where fs:
      "dateType e = ''relative''" "relativeEventName e = Some name" "relativePeriod e = Some period"
      "relativeUnit e = Some unit" "relativeDirection e = Some direction"
      "name \<noteq> []" "period \<noteq> 0" "unit \<noteq> []" "direction \<noteq> []"
      "find (\<lambda>x. title x = name) evs = Some r"
      by (rule reference_of_SomeD)
    from body obtain rd where "f tza cy r evs = Some rd"
      by (auto simp: fs bind_eq_Some_conv)
    from IH [OF this] obtain n where "chain_ends n r evs" ..
    then have "chain_ends (Suc n) e evs" using Some by simp
    then show ?thesis ..
  qed
qed

lemma self_reference_never_ends:
  assumes "reference_of e evs = Some e"
  shows "\<not> chain_ends n e evs"
  using assms by (induction n) simp_all

lemma mutual_reference_never_ends:
  assumes "reference_of a evs = Some b" "reference_of b evs = Some a"
  shows "\<not> chain_ends n a evs \<and> \<not> chain_ends n b evs"
  using assms by (induction n) simp_all

lemma calculateEventDate_self_reference:
  assumes "reference_of e evs = Some e"
  shows "calculateEventDate tza cy e evs = None"
proof (cases "calculateEventDate tza cy e evs")
  case None
  then show ?thesis .
next
  case (Some y)
  from calculateEventDate_Some_chain_ends [OF this] self_reference_never_ends [OF assms]
  show ?thesis by blast
qed

lemma calculateEventDate_mutual_reference:
  assumes "reference_of a evs = Some b" "reference_of b evs = Some a"
  shows "calculateEventDate tza cy a evs = None" "calculateEventDate tza cy b evs = None"
proof -
  note ne = mutual_reference_never_ends [OF assms]
  show "calculateEventDate tza cy a evs = None"
  proof (cases "calculateEventDate tza cy a evs")
    case (Some y)
    from calculateEventDate_Some_chain_ends [OF this] ne show ?thesis by blast
  qed simp
  show "calculateEventDate tza cy b evs = None"
  proof (cases "calculateEventDate tza cy b evs")
    case (Some y)
    from calculateEventDate_Some_chain_ends [OF this] ne show ?thesis by blast
  qed simp
qed

lemma reference_of_relative_event:
  assumes "name \<noteq> []" "period \<noteq> 0" "unit \<noteq> []" "direction \<noteq> []"
  shows "reference_of (relative_event t period unit direction name) evs
     = find (\<lambda>x. title x = name) evs"
  using assms by (simp add: reference_of_def relative_event_def)

lemma title_relative_event [simp]: "title (relative_event t period unit direction name) = t"
  by (simp add: relative_event_def)

section \<open>The claims\<close>

text \<open>
  Claim C5. For a year outside 0 to 99 whose dates lie in the range of \<^verbatim>\<open>Date\<close>, a month
  from 1 to 12 and a weekday from 0 to 6, occurrence 1 of \<^verbatim>\<open>calculateNthDate\<close> is the
  first date of the month with that weekday: the least day of the month \<open>j\<close> such that the date
  \<open>j\<close> of the month has the weekday. For an occurrence number other than -1 the function
  returns occurrence 1 advanced by \<open>(n - 1) * 7\<close> days when that date is still in the
  requested month, and fails otherwise. For \<open>n\<close> from 1 to 4 the advanced date is in the
  requested month and year. For March 2024 and Tuesday, occurrence 1 is 2024-03-05.
\<close>

theorem calculateNthDate_nth_occurrence:
  assumes "1 \<le> mon" "mon \<le> 12" "0 \<le> dow" "dow \<le> 6" "year < 0 \<or> 99 < year"
    "\<bar>year\<bar> \<le> 270000" "\<bar>tza\<bar> \<le> msPerDay" "n \<noteq> - 1"
  shows
    "let D = (\<lambda>j. new_Date tza (Num year) (Num (mon - 1)) (Num j));
         first = 1 + (dow - WeekDay (MakeDate (MakeDay year (mon - 1) 1) 0)) mod 7
     in (LEAST j. 1 \<le> j \<and> getDay tza (D j) = Num dow) = first
        \<and> calculateNthDate tza n dow mon year =
            Some (if getMonth tza (D (first + (n - 1) * 7)) = Num (mon - 1)
                  then Inr (D (first + (n - 1) * 7)) else Inl (NoOccurrenceInMonth n))
        \<and> (n \<in> {1, 2, 3, 4} \<longrightarrow>
             getFullYear tza (D (first + (n - 1) * 7)) = Num year
           \<and> getMonth tza (D (first + (n - 1) * 7)) = Num (mon - 1)
           \<and> getDate tza (D (first + (n - 1) * 7)) = Num (first + (n - 1) * 7))"
proof -
  have fy: "full_year year = year" using assms(5) by (auto simp: full_year_def)
  let ?F = "MakeDay year (mon - 1) 1"
  let ?k = "(dow - (?F + 4)) mod 7"
  have first: "1 + (dow - WeekDay (MakeDate ?F 0)) mod 7 = 1 + ?k"
    by (simp only: WeekDay_first_of_month first_offset_eq)
  have k: "0 \<le> ?k" "?k \<le> 6" by simp_all
  note least = month_first_is_least [OF assms(1,2,6,7,3,4), unfolded fy]
  note calc = calculateNthDate_forward [OF assms(1,2,6,7,3,4,8), unfolded fy Let_def]
  have civ: "getFullYear tza (new_Date tza (Num year) (Num (mon - 1)) (Num (1 + ?k + (n - 1) * 7))) = Num year
     \<and> getMonth tza (new_Date tza (Num year) (Num (mon - 1)) (Num (1 + ?k + (n - 1) * 7))) = Num (mon - 1)
     \<and> getDate tza (new_Date tza (Num year) (Num (mon - 1)) (Num (1 + ?k + (n - 1) * 7))) = Num (1 + ?k + (n - 1) * 7)"
    if "n \<in> {1, 2, 3, 4}"
  proof -
    have n: "1 \<le> n" "n \<le> 4" using that by auto
    have j: "1 \<le> 1 + ?k + (n - 1) * 7" "1 + ?k + (n - 1) * 7 \<le> DaysInMonth (full_year year) (mon - 1)"
      using k n DaysInMonth_bounds [of "full_year year" "mon - 1"]
      by (simp_all add: algebra_simps)
    from month_date_civil [OF assms(1,2,6,7) j, unfolded fy] show ?thesis by simp
  qed
  show ?thesis
    unfolding Let_def first using least calc civ by simp
qed

theorem calculateNthDate_nth_occurrence_witness:
  "(LEAST j. 1 \<le> j \<and> getDay (- 18000000) (new_Date (- 18000000) (Num 2024) (Num 2) (Num j)) = Num 2) = 5
   \<and> calculateNthDate (- 18000000) 1 2 3 2024 = Some (Inr (new_Date (- 18000000) (Num 2024) (Num 2) (Num 5)))
   \<and> getFullYear (- 18000000) (new_Date (- 18000000) (Num 2024) (Num 2) (Num 5)) = Num 2024
   \<and> getMonth (- 18000000) (new_Date (- 18000000) (Num 2024) (Num 2) (Num 5)) = Num 2
   \<and> getDate (- 18000000) (new_Date (- 18000000) (Num 2024) (Num 2) (Num 5)) = Num 5"
proof -
  have first: "1 + (2 - WeekDay (MakeDate (MakeDay 2024 (3 - 1) 1) 0)) mod 7 = 5"
    by (simp add: WeekDay_def Day_def MakeDate_def MakeDay_def MonthStart_def DayFromYear_def
        DaysInYear_def msPerDay_def)
  have "\<bar>- 18000000\<bar> \<le> msPerDay" by (simp add: msPerDay_def)
  from calculateNthDate_nth_occurrence [of 3 2 2024 "- 18000000" 1, unfolded Let_def first, OF _ _ _ _ _ _ this]
  show ?thesis by simp
qed

text \<open>
  Claim C6. For a year outside 0 to 99 whose dates lie in the range of \<^verbatim>\<open>Date\<close>, a month
  from 1 to 12 and a weekday from 0 to 6, \<^verbatim>\<open>calculateNthDate\<close> with occurrence -1 starts
  from \<^verbatim>\<open>new Date(year, month, 0)\<close>, the last day of the month, and returns the date found
  by stepping backward to the weekday. That date lies in the requested month and year, and
  its day of the month is the greatest \<open>j\<close> up to the length of the month such that date \<open>j\<close>
  of the month has the weekday. The result does not depend on the first occurrence found by
  the forward scan. The last Friday of March 2024 is 2024-03-29.
\<close>

theorem calculateNthDate_last_occurrence:
  assumes "1 \<le> mon" "mon \<le> 12" "0 \<le> dow" "dow \<le> 6" "year < 0 \<or> 99 < year"
    "\<bar>year\<bar> \<le> 270000" "\<bar>tza\<bar> \<le> msPerDay"
  shows
    "let D = (\<lambda>j. new_Date tza (Num year) (Num (mon - 1)) (Num j));
         len = DaysInMonth year (mon - 1);
         last = len - (WeekDay (MakeDate (MakeDay year (mon - 1) len) 0) - dow) mod 7
     in new_Date tza (Num year) (Num mon) (Num 0) = D len
        \<and> calculateNthDate tza (- 1) dow mon year = Some (Inr (D last))
        \<and> getFullYear tza (D last) = Num year
        \<and> getMonth tza (D last) = Num (mon - 1)
        \<and> getDate tza (D last) = Num last
        \<and> (GREATEST j. j \<le> len \<and> getDay tza (D j) = Num dow) = last"
proof -
  have fy: "full_year year = year" using assms(5) by (auto simp: full_year_def)
  have m: "0 \<le> mon - 1" "mon - 1 \<le> 11" using assms(1,2) by simp_all
  let ?F = "MakeDay year (mon - 1) 1"
  let ?len = "DaysInMonth year (mon - 1)"
  let ?L = "?F + ?len - 1"
  let ?k = "(?L + 4 - dow) mod 7"
  note len = DaysInMonth_bounds [of year "mon - 1"]
  have last: "?len - (WeekDay (MakeDate (MakeDay year (mon - 1) ?len) 0) - dow) mod 7 = ?len - ?k"
    by (simp only: WeekDay_last_of_month [OF m] last_offset_eq)
  have k: "0 \<le> ?k" "?k \<le> 6" by simp_all
  have j: "1 \<le> ?len - ?k" "?len - ?k \<le> DaysInMonth (full_year year) (mon - 1)"
    using k len by (simp_all add: fy)
  have jl: "\<bar>?len\<bar> \<le> 600000" "\<bar>?len - ?k\<bar> \<le> 600000" using k len by linarith+
  have lastDay: "new_Date tza (Num year) (Num mon) (Num 0)
      = new_Date tza (Num year) (Num (mon - 1)) (Num ?len)"
    unfolding month_last_day [OF assms(1,2,6,7)] month_component_date [OF assms(1,2,6,7) jl(1)] fy
    by simp
  have res: "local_midnight tza (?L - ?k) = new_Date tza (Num year) (Num (mon - 1)) (Num (?len - ?k))"
    unfolding month_component_date [OF assms(1,2,6,7) jl(2)] fy by (simp add: algebra_simps)
  note calc = calculateNthDate_last [OF assms(1,2,6,7,3,4), unfolded fy Let_def res]
  note civ = month_date_civil [OF assms(1,2,6,7) j, unfolded fy]
  note gr = month_last_is_greatest [OF assms(1,2,6,7,3,4), unfolded fy]
  show ?thesis
    unfolding Let_def last using lastDay calc civ gr by simp
qed

theorem calculateNthDate_last_occurrence_witness:
  "new_Date 3600000 (Num 2024) (Num 3) (Num 0) = new_Date 3600000 (Num 2024) (Num 2) (Num 31)
   \<and> calculateNthDate 3600000 (- 1) 5 3 2024 = Some (Inr (new_Date 3600000 (Num 2024) (Num 2) (Num 29)))
   \<and> getFullYear 3600000 (new_Date 3600000 (Num 2024) (Num 2) (Num 29)) = Num 2024
   \<and> getMonth 3600000 (new_Date 3600000 (Num 2024) (Num 2) (Num 29)) = Num 2
   \<and> getDate 3600000 (new_Date 3600000 (Num 2024) (Num 2) (Num 29)) = Num 29
   \<and> (GREATEST j. j \<le> 31 \<and> getDay 3600000 (new_Date 3600000 (Num 2024) (Num 2) (Num j)) = Num 5) = 29"
proof -
  have len: "DaysInMonth 2024 (3 - 1) = 31" by (simp add: DaysInMonth_def)
  have last: "31 - (WeekDay (MakeDate (MakeDay 2024 (3 - 1) 31) 0) - 5) mod 7 = 29"
    by (simp add: WeekDay_def Day_def MakeDate_def MakeDay_def MonthStart_def DayFromYear_def
        DaysInYear_def msPerDay_def)
  have "\<bar>3600000\<bar> \<le> msPerDay" by (simp add: msPerDay_def)
  from calculateNthDate_last_occurrence [of 3 5 2024 3600000, unfolded Let_def len last, OF _ _ _ _ _ _ this]
  show ?thesis by simp
qed

text \<open>
  Claim C7. For a valid base date, \<^verbatim>\<open>calculateRelativeDate\<close> applies the offset
  \<open>k = period\<close>, negated when the direction is \<^verbatim>\<open>before\<close>: unit \<^verbatim>\<open>days\<close> moves the time
  value by \<open>k\<close> days and \<^verbatim>\<open>weeks\<close> by \<open>7 * k\<close> days (the result is Invalid Date when it leaves
  the range of \<^verbatim>\<open>Date\<close>); \<^verbatim>\<open>months\<close> moves the local month by \<open>k\<close> and \<^verbatim>\<open>years\<close> the local
  year by \<open>k\<close>, keeping the day of the month and the time of day, so that the result has the
  shifted month and year and the same day of the month whenever that day exists in the target
  month (otherwise the day carries into the following month). A unit other than these four
  fails with the invalid-unit error. From 2024-12-25, three days before is 2024-12-22 and
  one month after is 2025-01-25.
\<close>

theorem calculateRelativeDate_offsets:
  "let k = (if direction = ''before'' then - period else period);
       lt = LocalTime tza t;
       y = YearFromTime lt; m = MonthFromTime lt; d = DateFromTime lt;
       months = local_date tza y (m + k) d (TimeWithinDay lt);
       years = local_date tza (y + k) m d (TimeWithinDay lt)
   in calculateRelativeDate tza (Time_Value t) period ''days'' direction
        = Inr (TimeClip (t + k * msPerDay))
    \<and> calculateRelativeDate tza (Time_Value t) period ''weeks'' direction
        = Inr (TimeClip (t + 7 * k * msPerDay))
    \<and> calculateRelativeDate tza (Time_Value t) period ''months'' direction = Inr months
    \<and> (d \<le> DaysInMonth (y + (m + k) div 12) ((m + k) mod 12) \<and> months \<noteq> Invalid_Date \<longrightarrow>
         getFullYear tza months = Num (y + (m + k) div 12)
       \<and> getMonth tza months = Num ((m + k) mod 12)
       \<and> getDate tza months = Num d)
    \<and> calculateRelativeDate tza (Time_Value t) period ''years'' direction = Inr years
    \<and> (d \<le> DaysInMonth (y + k) m \<and> years \<noteq> Invalid_Date \<longrightarrow>
         getFullYear tza years = Num (y + k) \<and> getMonth tza years = Num m
       \<and> getDate tza years = Num d)
    \<and> (unit \<noteq> ''days'' \<and> unit \<noteq> ''weeks'' \<and> unit \<noteq> ''months'' \<and> unit \<noteq> ''years'' \<longrightarrow>
         calculateRelativeDate tza (Time_Value t) period unit direction = Inl (InvalidUnit unit))"
proof -
  define k where "k = (if direction = ''before'' then - period else period)"
  define lt where "lt = LocalTime tza t"
  note tod = TimeWithinDay_range [of lt]
  note d = DateFromTime_range [of lt]
  note m = MonthFromTime_range [of lt]
  have months: "getFullYear tza (local_date tza (YearFromTime lt) (MonthFromTime lt + k) (DateFromTime lt) (TimeWithinDay lt))
        = Num (YearFromTime lt + (MonthFromTime lt + k) div 12)
      \<and> getMonth tza (local_date tza (YearFromTime lt) (MonthFromTime lt + k) (DateFromTime lt) (TimeWithinDay lt))
        = Num ((MonthFromTime lt + k) mod 12)
      \<and> getDate tza (local_date tza (YearFromTime lt) (MonthFromTime lt + k) (DateFromTime lt) (TimeWithinDay lt))
        = Num (DateFromTime lt)"
    if "DateFromTime lt \<le> DaysInMonth (YearFromTime lt + (MonthFromTime lt + k) div 12) ((MonthFromTime lt + k) mod 12)"
      "local_date tza (YearFromTime lt) (MonthFromTime lt + k) (DateFromTime lt) (TimeWithinDay lt) \<noteq> Invalid_Date"
    using local_date_civil [OF tod d(1) that] by simp
  have "m' div 12 = 0 \<and> m' mod 12 = m'" if "0 \<le> m'" "m' \<le> 11" for m' :: int
    using that by simp
  from this [OF m] have mm: "MonthFromTime lt div 12 = 0" "MonthFromTime lt mod 12 = MonthFromTime lt"
    by simp_all
  have years: "getFullYear tza (local_date tza (YearFromTime lt + k) (MonthFromTime lt) (DateFromTime lt) (TimeWithinDay lt))
        = Num (YearFromTime lt + k)
      \<and> getMonth tza (local_date tza (YearFromTime lt + k) (MonthFromTime lt) (DateFromTime lt) (TimeWithinDay lt))
        = Num (MonthFromTime lt)
      \<and> getDate tza (local_date tza (YearFromTime lt + k) (MonthFromTime lt) (DateFromTime lt) (TimeWithinDay lt))
        = Num (DateFromTime lt)"
    if a: "DateFromTime lt \<le> DaysInMonth (YearFromTime lt + k) (MonthFromTime lt)"
      and b: "local_date tza (YearFromTime lt + k) (MonthFromTime lt) (DateFromTime lt) (TimeWithinDay lt) \<noteq> Invalid_Date"
  proof -
    have a': "DateFromTime lt \<le> DaysInMonth (YearFromTime lt + k + MonthFromTime lt div 12) (MonthFromTime lt mod 12)"
      using a by (simp add: mm)
    from local_date_civil [OF tod d(1) a' b] show ?thesis by (simp add: mm)
  qed
  show ?thesis
    unfolding Let_def k_def [symmetric] lt_def [symmetric]
    using months years calculateRelativeDate_invalid_unit [of unit tza "Time_Value t" period direction]
    by (simp add: calculateRelativeDate_days calculateRelativeDate_weeks
        calculateRelativeDate_months calculateRelativeDate_years k_def lt_def)
qed

theorem calculateRelativeDate_offsets_witness:
  "calculateRelativeDate (- 18000000) (new_Date (- 18000000) (Num 2024) (Num 11) (Num 25)) 3 ''days'' ''before''
     = Inr (new_Date (- 18000000) (Num 2024) (Num 11) (Num 22))
   \<and> calculateRelativeDate (- 18000000) (new_Date (- 18000000) (Num 2024) (Num 11) (Num 25)) 1 ''months'' ''after''
     = Inr (new_Date (- 18000000) (Num 2025) (Num 0) (Num 25))
   \<and> getFullYear (- 18000000) (new_Date (- 18000000) (Num 2025) (Num 0) (Num 25)) = Num 2025
   \<and> getMonth (- 18000000) (new_Date (- 18000000) (Num 2025) (Num 0) (Num 25)) = Num 0
   \<and> getDate (- 18000000) (new_Date (- 18000000) (Num 2025) (Num 0) (Num 25)) = Num 25
   \<and> calculateRelativeDate (- 18000000) (new_Date (- 18000000) (Num 2024) (Num 11) (Num 25)) 2 ''weeks'' ''after''
     = Inr (new_Date (- 18000000) (Num 2025) (Num 0) (Num 8))
   \<and> calculateRelativeDate (- 18000000) (new_Date (- 18000000) (Num 2024) (Num 11) (Num 25)) 1 ''years'' ''before''
     = Inr (new_Date (- 18000000) (Num 2023) (Num 11) (Num 25))
   \<and> getFullYear (- 18000000) (new_Date (- 18000000) (Num 2023) (Num 11) (Num 25)) = Num 2023
   \<and> calculateRelativeDate (- 18000000) (new_Date (- 18000000) (Num 2024) (Num 11) (Num 25)) 1 ''fortnights'' ''after''
     = Inl (InvalidUnit ''fortnights'')"
proof -
  have base: "new_Date (- 18000000) (Num 2024) (Num 11) (Num 25) = Time_Value 1735102800000"
    by (simp add: new_Date_def full_year_def TimeClip_def maxTime_def UTC_def MakeDate_def
        MakeDay_def MonthStart_def DayFromYear_def DaysInYear_def msPerDay_def)
  have lt: "LocalTime (- 18000000) 1735102800000 = 1735084800000" by (simp add: LocalTime_def)
  have day: "Day 1735084800000 = 20082" "TimeWithinDay 1735084800000 = 0"
    by (simp_all add: Day_def TimeWithinDay_def msPerDay_def)
  have y: "YearFromTime 1735084800000 = 2024"
    by (simp add: YearFromTime_def YearFromDay_def day DayFromYear_def)
  have w: "DayWithinYear 1735084800000 = 359" "InLeapYear 1735084800000 = 1"
    by (simp_all add: DayWithinYear_def InLeapYear_def y day DayFromYear_def DaysInYear_def)
  have m: "MonthFromTime 1735084800000 = 11" by (simp add: MonthFromTime_def w)
  have d: "DateFromTime 1735084800000 = 25" by (simp add: DateFromTime_def w m)
  have r1: "TimeClip (1735102800000 + - 3 * msPerDay) = new_Date (- 18000000) (Num 2024) (Num 11) (Num 22)"
    by (simp add: new_Date_def full_year_def TimeClip_def maxTime_def UTC_def MakeDate_def
        MakeDay_def MonthStart_def DayFromYear_def DaysInYear_def msPerDay_def)
  have r2: "local_date (- 18000000) 2024 (11 + 1) 25 0 = new_Date (- 18000000) (Num 2025) (Num 0) (Num 25)"
    by (simp add: local_date_def new_Date_def full_year_def TimeClip_def maxTime_def UTC_def
        MakeDate_def MakeDay_def MonthStart_def DayFromYear_def DaysInYear_def msPerDay_def)
  have r3: "TimeClip (1735102800000 + 7 * 2 * msPerDay) = new_Date (- 18000000) (Num 2025) (Num 0) (Num 8)"
    by (simp add: new_Date_def full_year_def TimeClip_def maxTime_def UTC_def MakeDate_def
        MakeDay_def MonthStart_def DayFromYear_def DaysInYear_def msPerDay_def)
  have r4: "local_date (- 18000000) (2024 + - 1) 11 25 0 = new_Date (- 18000000) (Num 2023) (Num 11) (Num 25)"
    by (simp add: local_date_def new_Date_def full_year_def TimeClip_def maxTime_def UTC_def
        MakeDate_def MakeDay_def MonthStart_def DayFromYear_def DaysInYear_def msPerDay_def)
  have v2: "new_Date (- 18000000) (Num 2025) (Num 0) (Num 25) \<noteq> Invalid_Date"
    and v4: "new_Date (- 18000000) (Num 2023) (Num 11) (Num 25) \<noteq> Invalid_Date"
    by (simp_all add: new_Date_def full_year_def TimeClip_def maxTime_def UTC_def MakeDate_def
        MakeDay_def MonthStart_def DayFromYear_def DaysInYear_def msPerDay_def)
  have dim: "DaysInMonth 2025 0 = 31" "DaysInMonth 2023 11 = 31" by (simp_all add: DaysInMonth_def)
  note a = calculateRelativeDate_offsets [of "''before''" 3 "- 18000000" 1735102800000 "''days''",
      unfolded Let_def lt y m d day]
  note b = calculateRelativeDate_offsets [of "''after''" 1 "- 18000000" 1735102800000 "''days''",
      unfolded Let_def lt y m d day]
  note c = calculateRelativeDate_offsets [of "''after''" 2 "- 18000000" 1735102800000 "''days''",
      unfolded Let_def lt y m d day]
  note e = calculateRelativeDate_offsets [of "''before''" 1 "- 18000000" 1735102800000 "''fortnights''",
      unfolded Let_def lt y m d day]
  note f = calculateRelativeDate_offsets [of "''after''" 1 "- 18000000" 1735102800000 "''fortnights''",
      unfolded Let_def lt y m d day]
  show ?thesis
    unfolding base using a b c e f r1 r2 r3 r4 v2 v4 dim by simp
qed

text \<open>
  Claim C1, as stated, fails: \<^verbatim>\<open>calculateEventDate\<close> threads no set of visited events
  through its recursion and has no circular-reference result. A relative event that names
  its own title, and each of two relative events that name each other, make the recursion
  go on without end.
\<close>

theorem no_cycle_guard_counterexample:
  "calculateEventDate 0 2024 (relative_event ''A'' 1 ''days'' ''after'' ''A'')
       [relative_event ''A'' 1 ''days'' ''after'' ''A''] = None
   \<and> calculateEventDate 0 2024 (relative_event ''A'' 1 ''days'' ''after'' ''B'')
       [relative_event ''A'' 1 ''days'' ''after'' ''B'',
        relative_event ''B'' 2 ''weeks'' ''before'' ''A''] = None
   \<and> calculateEventDate 0 2024 (relative_event ''B'' 2 ''weeks'' ''before'' ''A'')
       [relative_event ''A'' 1 ''days'' ''after'' ''B'',
        relative_event ''B'' 2 ''weeks'' ''before'' ''A''] = None"
proof -
  let ?A = "relative_event ''A'' 1 ''days'' ''after'' ''A''"
  let ?A' = "relative_event ''A'' 1 ''days'' ''after'' ''B''"
  let ?B = "relative_event ''B'' 2 ''weeks'' ''before'' ''A''"
  have "reference_of ?A [?A] = Some ?A" by (simp add: reference_of_relative_event)
  then have 1: "calculateEventDate 0 2024 ?A [?A] = None"
    by (rule calculateEventDate_self_reference)
  have "reference_of ?A' [?A', ?B] = Some ?B" "reference_of ?B [?A', ?B] = Some ?A'"
    by (simp_all add: reference_of_relative_event)
  then have "calculateEventDate 0 2024 ?A' [?A', ?B] = None"
    "calculateEventDate 0 2024 ?B [?A', ?B] = None"
    by (rule calculateEventDate_mutual_reference)+
  with 1 show ?thesis by simp
qed

text \<open>
  Claim C1, amended. When the weekday, month and year of every event of the snapshot and of
  the event itself are in range (weekday 0 to 6, month 0 to 12, year within 270000 of 0, as
  is the current year), date resolution returns exactly when following the title references
  from the event ends after finitely many steps, at an event that is not relative, lacks a
  relative field or names a title that no event has. No visited set is kept and no
  circular-reference result exists.
\<close>

theorem calculateEventDate_returns_iff_chain_ends:
  assumes "\<forall>x \<in> set (e # evs). nth_fields_in_range x"
    and "\<bar>cy\<bar> \<le> 270000" and "\<bar>tza\<bar> \<le> msPerDay"
  shows "(\<exists>r. calculateEventDate tza cy e evs = Some r) = (\<exists>n. chain_ends n e evs)"
proof
  assume "\<exists>r. calculateEventDate tza cy e evs = Some r"
  then show "\<exists>n. chain_ends n e evs" using calculateEventDate_Some_chain_ends by blast
next
  assume "\<exists>n. chain_ends n e evs"
  then obtain n where n: "chain_ends n e evs" ..
  have a: "\<forall>x \<in> set evs. nth_fields_in_range x" and b: "nth_fields_in_range e"
    using assms(1) by simp_all
  show "\<exists>r. calculateEventDate tza cy e evs = Some r"
    by (rule calculateEventDate_returns [OF a assms(2,3) b n])
qed

end
